theory Spec2Isabelle
  imports Main "HOL-Library.Word"
begin

unbundle bit_operations_syntax

section \<open>Values exchanged with the external services\<close>

text \<open>
  The bodies returned by \<^verbatim>\<open>response.json()\<close> and the dictionaries handed to
  \<^verbatim>\<open>jsonify\<close> are JSON values. A Python dict is an association list in which the
  first binding of a key is the one \<^verbatim>\<open>.get\<close> finds; Python's \<^verbatim>\<open>None\<close> is
  \<open>JNull\<close>. Numbers are integers.
\<close>

datatype json =
    JNull
  | JBool bool
  | JInt int
  | JStr string
  | JList "json list"
  | JObj "(string \<times> json) list"

type_synonym byte = "8 word"

text \<open>\<^verbatim>\<open>d.get(k)\<close> and \<^verbatim>\<open>d.get(k, default)\<close> on a dict.\<close>

definition dict_get_default :: "(string \<times> json) list \<Rightarrow> string \<Rightarrow> json \<Rightarrow> json" where
  "dict_get_default d k dflt = (case map_of d k of None \<Rightarrow> dflt | Some v \<Rightarrow> v)"

definition dict_get :: "(string \<times> json) list \<Rightarrow> string \<Rightarrow> json" where
  "dict_get d k = dict_get_default d k JNull"

text \<open>Python truthiness, as used by \<^verbatim>\<open>not x\<close> and \<^verbatim>\<open>x or y\<close>.\<close>

fun truthy :: "json \<Rightarrow> bool" where
  "truthy JNull = False"
| "truthy (JBool b) = b"
| "truthy (JInt i) = (i \<noteq> 0)"
| "truthy (JStr s) = (s \<noteq> [])"
| "truthy (JList xs) = (xs \<noteq> [])"
| "truthy (JObj d) = (d \<noteq> [])"

definition py_or :: "json \<Rightarrow> json \<Rightarrow> json" where
  "py_or a b = (if truthy a then a else b)"

text \<open>\<^verbatim>\<open>s.startswith(p)\<close> and \<^verbatim>\<open>s.split(",", 1)[-1]\<close>.\<close>

definition startswith :: "string \<Rightarrow> string \<Rightarrow> bool" where
  "startswith s p = (take (length p) s = p)"

definition split_comma_last :: "string \<Rightarrow> string" where
  "split_comma_last s =
     (case dropWhile (\<lambda>c. c \<noteq> CHR '','') s of [] \<Rightarrow> s | _ # rest \<Rightarrow> rest)"

section \<open>Exceptions\<close>

text \<open>
  The exceptions that travel through \<^verbatim>\<open>generate_image\<close>. A
  \<^verbatim>\<open>requests.exceptions.RequestException\<close> carries the status code of its
  \<^verbatim>\<open>response\<close> attribute, or \<open>None\<close> when there is no response (connection refused,
  DNS, TLS, a broken stream, a body that \<^verbatim>\<open>response.json()\<close> cannot parse).
  \<^verbatim>\<open>RuntimeError(f"Generation {status}: {error}")\<close> keeps the two interpolated
  values instead of the formatted text. The other exceptions keep their message.
\<close>

datatype exn =
    RequestException "int option"
  | ValueError string
  | RuntimeError json json
  | TimeoutError string
  | AttributeError string
  | BinasciiError string
  | AzureError string

section \<open>Error responses\<close>

text \<open>\<^verbatim>\<open>handle_api_error(error, request_id)\<close>; the log lines are not modelled.\<close>

definition error_dict :: "string \<Rightarrow> string \<Rightarrow> string \<Rightarrow> string \<Rightarrow> json" where
  "error_dict msg user_msg code request_id =
     JObj [(''status'', JStr ''error''),
           (''message'', JStr msg),
           (''user_message'', JStr user_msg),
           (''error_code'', JStr code),
           (''request_id'', JStr request_id)]"

definition unknown_error :: "string \<Rightarrow> json" where
  "unknown_error request_id =
     error_dict ''An unexpected error occurred''
       ''Something went wrong. Please try again or contact support.''
       ''UNKNOWN_ERROR'' request_id"

fun handle_api_error :: "exn \<Rightarrow> string \<Rightarrow> json" where
  "handle_api_error (RequestException (Some status_code)) request_id =
     (if status_code = 401 then
        error_dict ''API authentication failed. Please check your API configuration.''
          ''The image generator is not properly configured. Please contact the administrator.''
          ''AUTH_FAILED'' request_id
      else if status_code = 403 then
        error_dict ''API access forbidden - insufficient permissions''
          ''You don't have permission to use this service.''
          ''ACCESS_FORBIDDEN'' request_id
      else if status_code = 429 then
        error_dict ''API rate limit exceeded''
          ''Too many requests. Please try again in a few minutes.''
          ''RATE_LIMITED'' request_id
      else if status_code \<ge> 500 then
        error_dict ''External API service error''
          ''The image generation service is temporarily unavailable. Please try again later.''
          ''SERVICE_ERROR'' request_id
      else unknown_error request_id)"
| "handle_api_error _ request_id = unknown_error request_id"

section \<open>Configuration\<close>

text \<open>
  The module-level settings read from the environment: \<^verbatim>\<open>os.environ.get\<close> gives
  \<open>None\<close> for a variable that is not set.
\<close>

record config =
  API_TOKEN :: "string option"
  BEARER_TOKEN :: "string option"
  AZURE_CONN_STR :: "string option"
  CONTAINER_NAME :: string

text \<open>\<^verbatim>\<open>not v or v == placeholder\<close>.\<close>

definition unconfigured :: "string option \<Rightarrow> string \<Rightarrow> bool" where
  "unconfigured v placeholder =
     (case v of None \<Rightarrow> True | Some s \<Rightarrow> s = [] \<or> s = placeholder)"

definition check_api_configuration :: "config \<Rightarrow> string list" where
  "check_api_configuration cfg =
     (if unconfigured (API_TOKEN cfg) ''your_runpod_api_token_here'' then [''API_TOKEN'']
      else [])
     @ (if unconfigured (BEARER_TOKEN cfg) ''your_bearer_token_here'' then [''BEARER_TOKEN'']
        else [])
     @ (if unconfigured (AZURE_CONN_STR cfg) ''your_azure_connection_string_here''
        then [''AZURE_CONN_STR''] else [])"

text \<open>
  \<^verbatim>\<open>health_check()\<close>: the body and the HTTP status. The clock reading stored under
  \<^verbatim>\<open>timestamp\<close> is passed in.
\<close>

definition health_check :: "config \<Rightarrow> int \<Rightarrow> json \<times> int" where
  "health_check cfg timestamp =
     (let missing_config = check_api_configuration cfg;
          health_status =
            JObj [(''service'', JStr ''Image Generator''),
                  (''status'', JStr (if missing_config = [] then ''healthy'' else ''degraded'')),
                  (''timestamp'', JInt timestamp),
                  (''configuration'',
                     JObj [(''api_configured'', JBool (length missing_config = 0)),
                           (''missing_config'', JList (map JStr missing_config)),
                           (''endpoints'',
                              JObj [(''generate'', JStr ''/generate''),
                                    (''pdf_convert'', JStr ''/convert_html_to_pdf''),
                                    (''health'', JStr ''/health'')])])];
          status_code = (if missing_config = [] then 200 else 503)
      in (health_status, status_code))"

section \<open>Base64 decoding\<close>

text \<open>
  \<^verbatim>\<open>base64.b64decode(s)\<close> of the standard library, called with its defaults
  (\<^verbatim>\<open>validate=False\<close>): a string with a character outside ASCII is refused with
  ValueError, then \<^verbatim>\<open>binascii.a2b_base64\<close> runs in its lenient mode. It skips every
  character outside the alphabet, emits a byte as soon as it is complete, stops at a
  pad sequence that completes a quad, and refuses an input that ends inside a quad.
  The loop state is the position in the quad, the bits left over, the pads seen since
  the last data character, and the output so far. The message for an input that ends
  one character into a quad carries the number of data characters, which the C code
  computes from the length of the output and prints with \<^verbatim>\<open>%zd\<close>.
\<close>

fun decimal :: "nat \<Rightarrow> string" where
  "decimal n =
     (if n < 10 then [char_of (48 + n)]
      else decimal (n div 10) @ [char_of (48 + n mod 10)])"

definition table_a2b_base64 :: "char \<Rightarrow> byte option" where
  "table_a2b_base64 c =
     (let n = (of_char c :: nat) in
      if 65 \<le> n \<and> n \<le> 90 then Some (of_nat (n - 65))
      else if 97 \<le> n \<and> n \<le> 122 then Some (of_nat (n - 71))
      else if 48 \<le> n \<and> n \<le> 57 then Some (of_nat (n + 4))
      else if n = 43 then Some 62
      else if n = 47 then Some 63
      else None)"

fun a2b_base64 :: "string \<Rightarrow> nat \<Rightarrow> byte \<Rightarrow> nat \<Rightarrow> byte list \<Rightarrow> exn + byte list" where
  "a2b_base64 [] quad_pos leftchar pads out =
     (if quad_pos = 0 then Inr out
      else if quad_pos = 1 then
        Inl (BinasciiError (''Invalid base64-encoded string: number of data characters (''
               @ decimal (length out div 3 * 4 + 1)
               @ '') cannot be 1 more than a multiple of 4''))
      else Inl (BinasciiError ''Incorrect padding''))"
| "a2b_base64 (c # cs) quad_pos leftchar pads out =
     (if c = CHR ''='' then
        (if quad_pos \<ge> 2 \<and> quad_pos + (pads + 1) \<ge> 4 then Inr out
         else a2b_base64 cs quad_pos leftchar (if quad_pos \<ge> 2 then pads + 1 else pads) out)
      else
        (case table_a2b_base64 c of
           None \<Rightarrow> a2b_base64 cs quad_pos leftchar pads out
         | Some this_ch \<Rightarrow>
             (if quad_pos = 0 then a2b_base64 cs 1 this_ch 0 out
              else if quad_pos = 1 then
                a2b_base64 cs 2 (this_ch AND 0x0f) 0
                  (out @ [push_bit 2 leftchar OR drop_bit 4 this_ch])
              else if quad_pos = 2 then
                a2b_base64 cs 3 (this_ch AND 0x03) 0
                  (out @ [push_bit 4 leftchar OR drop_bit 2 this_ch])
              else
                a2b_base64 cs 0 0 0 (out @ [push_bit 6 leftchar OR this_ch]))))"

definition b64decode :: "string \<Rightarrow> exn + byte list" where
  "b64decode s =
     (if \<exists>c \<in> set s. (of_char c :: nat) \<ge> 128 then
        Inl (ValueError ''string argument should contain only ASCII characters'')
      else a2b_base64 s 0 0 0 [])"

text \<open>
  The reference for what the decoder has to return: \<^verbatim>\<open>base64.b64encode\<close> of the
  standard library (RFC 4648, section 4). Three bytes become four characters of the
  alphabet, six bits each; a last group of one or two bytes is filled up with
  \<^verbatim>\<open>=\<close>. \<open>b2a\<close> is the character of a six-bit value.
\<close>

definition b2a :: "byte \<Rightarrow> char" where
  "b2a v =
     (let n = unat v in
      if n < 26 then char_of (n + 65)
      else if n < 52 then char_of (n + 71)
      else if n < 62 then char_of (n - 4)
      else if n = 62 then CHR ''+''
      else CHR ''/'')"

fun b64encode :: "byte list \<Rightarrow> string" where
  "b64encode [] = []"
| "b64encode [a] =
     [b2a (drop_bit 2 a), b2a (push_bit 4 (a AND 0x03)), CHR ''='', CHR ''='']"
| "b64encode [a, b] =
     [b2a (drop_bit 2 a), b2a (push_bit 4 (a AND 0x03) OR drop_bit 4 b),
      b2a (push_bit 2 (b AND 0x0f)), CHR ''='']"
| "b64encode (a # b # c # bs) =
     [b2a (drop_bit 2 a), b2a (push_bit 4 (a AND 0x03) OR drop_bit 4 b),
      b2a (push_bit 2 (b AND 0x0f) OR drop_bit 6 c), b2a (c AND 0x3f)] @ b64encode bs"

section \<open>The external world\<close>

text \<open>
  What the collaborators answer is given by an environment. A call through
  \<^verbatim>\<open>requests\<close> either fails without a response or returns a status code and a
  body. The body of an answer of the generation API is either the value that
  \<^verbatim>\<open>response.json()\<close> parses it to (\<open>Response\<close>), or it is not JSON (\<open>NonJson\<close>);
  then \<^verbatim>\<open>response.json()\<close> raises \<^verbatim>\<open>requests.exceptions.JSONDecodeError\<close>, a
  RequestException that carries no response. The body of the image download is the
  list of chunks that \<^verbatim>\<open>iter_content(1024)\<close> yields, and the flag says whether the
  stream breaks after them. The \<open>n\<close>-th status poll of a run takes \<open>poll_latency n\<close> time units, whatever
  its outcome. Each call of the Azure client may raise: \<open>client_error\<close> is what
  \<^verbatim>\<open>BlobServiceClient.from_connection_string\<close> raises, the other fields belong to
  \<^verbatim>\<open>get_container_client\<close>, \<^verbatim>\<open>create_container\<close>, \<^verbatim>\<open>get_blob_client\<close> and
  \<^verbatim>\<open>upload_blob\<close> of the blob client.
\<close>

datatype reply = NoResponse | Response int json | NonJson int

datatype image_reply = NoImageResponse | ImageResponse int "byte list list" bool

record azure =
  client_error :: "exn option"
  container_client_error :: "exn option"
  create_container_error :: "exn option"
  blob_client_error :: "exn option"
  upload_error :: "exn option"

record env =
  cfg :: config
  post_reply :: reply
  poll_reply :: "nat \<Rightarrow> reply"
  poll_latency :: "nat \<Rightarrow> nat"
  image_reply :: "string \<Rightarrow> image_reply"
  storage :: azure

text \<open>
  What the program changes: the clock (in the time units of \<^verbatim>\<open>time.time()\<close>), the
  local files, the blob store, and the requests it has issued. A status poll is logged
  with the time it was issued and the time its answer arrived.
\<close>

datatype event = Post json | Poll int int | Fetch string

record world =
  now :: int
  files :: "string \<rightharpoonup> byte list"
  containers :: "string set"
  blobs :: "string \<times> string \<rightharpoonup> byte list"
  trace :: "event list"

text \<open>\<^verbatim>\<open>response.raise_for_status()\<close>: HTTPError for the codes 400 to 599.\<close>

definition raise_for_status :: "int \<Rightarrow> exn option" where
  "raise_for_status status_code =
     (if 400 \<le> status_code \<and> status_code < 600
      then Some (RequestException (Some status_code)) else None)"

section \<open>Uploading to the blob store\<close>

definition blob_url_of :: "string \<Rightarrow> string \<Rightarrow> string" where
  "blob_url_of container blob_name =
     ''https://whiperimages.blob.core.windows.net/'' @ container @ ''/'' @ blob_name"

text \<open>
  \<^verbatim>\<open>upload_blob(local_path, blob_name)\<close>. \<open>Inl\<close> is an exception that reaches the
  caller, \<open>Inr JNull\<close> is \<^verbatim>\<open>return None\<close>. The client is built before the
  \<^verbatim>\<open>try\<close>; \<^verbatim>\<open>open(local_path, "rb")\<close> fails on a file that does not exist;
  \<^verbatim>\<open>overwrite=True\<close> replaces a blob of the same name.
\<close>

definition upload_blob :: "env \<Rightarrow> string \<Rightarrow> string \<Rightarrow> world \<Rightarrow> (exn + json) \<times> world" where
  "upload_blob e local_path blob_name w =
     (let az = storage e; container = CONTAINER_NAME (cfg e) in
      case client_error az of
        Some x \<Rightarrow> (Inl x, w)
      | None \<Rightarrow>
          (case container_client_error az of
             Some x \<Rightarrow> (Inr JNull, w)
           | None \<Rightarrow>
               (let w1 = (case create_container_error az of
                            Some x \<Rightarrow> w
                          | None \<Rightarrow> w\<lparr>containers := insert container (containers w)\<rparr>)
                in case blob_client_error az of
                     Some x \<Rightarrow> (Inr JNull, w1)
                   | None \<Rightarrow>
                       (case files w1 local_path of
                          None \<Rightarrow> (Inr JNull, w1)
                        | Some data \<Rightarrow>
                            (case upload_error az of
                               Some x \<Rightarrow> (Inr JNull, w1)
                             | None \<Rightarrow>
                                 (Inr (JStr (blob_url_of container blob_name)),
                                  w1\<lparr>blobs := (blobs w1)((container, blob_name) \<mapsto> data)\<rparr>))))))"

section \<open>Submitting and polling\<close>

text \<open>
  Lines 153 to 160 of \<^verbatim>\<open>generate_image\<close>: the POST to \<^verbatim>\<open>/run\<close> and the job
  identifier of its answer. \<^verbatim>\<open>raise_for_status()\<close> comes first, then
  \<^verbatim>\<open>response.json()\<close>, which raises on a body that is not JSON; \<^verbatim>\<open>.get\<close> on a
  body that is not a dict raises AttributeError.
\<close>

definition submit_job :: "env \<Rightarrow> json \<Rightarrow> json \<Rightarrow> json \<Rightarrow> world \<Rightarrow> (exn + json) \<times> world" where
  "submit_job e prompt width height w =
     (let payload = JObj [(''input'',
                      JObj [(''prompt'', prompt), (''width'', width), (''height'', height)])];
          w1 = w\<lparr>trace := trace w @ [Post payload]\<rparr>
      in case post_reply e of
           NoResponse \<Rightarrow> (Inl (RequestException None), w1)
         | Response status_code body \<Rightarrow>
             (case raise_for_status status_code of
                Some x \<Rightarrow> (Inl x, w1)
              | None \<Rightarrow>
                  (case body of
                     JObj job_info \<Rightarrow>
                       (let job_id = dict_get job_info ''id'' in
                        if \<not> truthy job_id
                        then (Inl (ValueError ''Job ID not found in /run response.''), w1)
                        else (Inr job_id, w1))
                   | _ \<Rightarrow> (Inl (AttributeError ''get''), w1)))
         | NonJson status_code \<Rightarrow>
             (case raise_for_status status_code of
                Some x \<Rightarrow> (Inl x, w1)
              | None \<Rightarrow> (Inl (RequestException None), w1)))"

text \<open>
  Lines 165 to 176: the \<^verbatim>\<open>while True\<close> loop. The \<open>n\<close>-th poll is issued at the
  current time and its answer arrives \<open>poll_latency e n\<close> later; \<^verbatim>\<open>time.sleep(2)\<close>
  advances the clock by 2. The loop returns the dict of the COMPLETED answer. As at the
  submission, \<^verbatim>\<open>raise_for_status()\<close> comes before \<^verbatim>\<open>.json()\<close>.
\<close>

function poll_loop :: "env \<Rightarrow> int \<Rightarrow> nat \<Rightarrow> world \<Rightarrow> (exn + (string \<times> json) list) \<times> world" where
  "poll_loop e t_start n w =
     (let w1 = w\<lparr>now := now w + int (poll_latency e n),
                 trace := trace w @ [Poll (now w) (now w + int (poll_latency e n))]\<rparr>
      in case poll_reply e n of
           NoResponse \<Rightarrow> (Inl (RequestException None), w1)
         | Response status_code body \<Rightarrow>
             (case raise_for_status status_code of
                Some x \<Rightarrow> (Inl x, w1)
              | None \<Rightarrow>
                  (case body of
                     JObj status_data \<Rightarrow>
                       if dict_get status_data ''status'' = JStr ''COMPLETED''
                       then (Inr status_data, w1)
                       else if dict_get status_data ''status'' = JStr ''FAILED''
                               \<or> dict_get status_data ''status'' = JStr ''CANCELLED''
                       then (Inl (RuntimeError (dict_get status_data ''status'')
                                    (dict_get_default status_data ''error'' (JStr ''''))), w1)
                       else if now w1 - t_start > 120
                       then (Inl (TimeoutError ''Timed out waiting for completed job.''), w1)
                       else poll_loop e t_start (Suc n) (w1\<lparr>now := now w1 + 2\<rparr>)
                   | _ \<Rightarrow> (Inl (AttributeError ''get''), w1)))
         | NonJson status_code \<Rightarrow>
             (case raise_for_status status_code of
                Some x \<Rightarrow> (Inl x, w1)
              | None \<Rightarrow> (Inl (RequestException None), w1)))"
  by pat_completeness auto
termination
  by (relation "measure (\<lambda>(e, t_start, n, w). nat (123 + t_start - now w))") auto

section \<open>Extracting and storing the image\<close>

text \<open>Lines 179 to 188: the value of \<^verbatim>\<open>image_url\<close>, or ValueError when it is falsy.\<close>

definition parse_output :: "(string \<times> json) list \<Rightarrow> exn + json" where
  "parse_output result =
     (let output = dict_get result ''output'';
          image_url =
            (case output of
               JObj d \<Rightarrow> py_or (dict_get d ''image_url'') (dict_get d ''image'')
             | JStr s \<Rightarrow> JStr s
             | JList (JStr s # _) \<Rightarrow> JStr s
             | _ \<Rightarrow> JNull)
      in if \<not> truthy image_url then Inl (ValueError ''image_url not found in output.'')
         else Inr image_url)"

definition save_path_of :: "string \<Rightarrow> string" where
  "save_path_of rid = ''static/generated_images/'' @ rid @ ''.png''"

text \<open>
  The \<^verbatim>\<open>for chunk in img_r.iter_content(1024): f.write(chunk)\<close> loop on the content
  of the file opened with mode \<^verbatim>\<open>"wb"\<close>.
\<close>

fun write_chunks :: "byte list list \<Rightarrow> byte list \<Rightarrow> byte list" where
  "write_chunks [] f = f"
| "write_chunks (chunk # chunks) f = write_chunks chunks (f @ chunk)"

text \<open>
  Lines 190 to 204: the image is decoded or downloaded into the file at
  \<^verbatim>\<open>save_path\<close>. \<^verbatim>\<open>.startswith\<close> on a value that is not a string raises
  AttributeError. In the data branch the payload is decoded before the file is opened;
  in the download branch the file is opened once the answer has passed
  \<^verbatim>\<open>raise_for_status\<close>, and a stream that breaks leaves what was written.
\<close>

definition save_image :: "env \<Rightarrow> string \<Rightarrow> json \<Rightarrow> world \<Rightarrow> (exn + unit) \<times> world" where
  "save_image e rid image_url w =
     (let save_path = save_path_of rid in
      case image_url of
        JStr s \<Rightarrow>
          if startswith s ''data:image'' then
            (let base64_data = split_comma_last s in
             case b64decode base64_data of
               Inl x \<Rightarrow> (Inl x, w)
             | Inr image_data \<Rightarrow> (Inr (), w\<lparr>files := (files w)(save_path \<mapsto> image_data)\<rparr>))
          else if startswith s ''http'' then
            (let w1 = w\<lparr>trace := trace w @ [Fetch s]\<rparr> in
             case image_reply e s of
               NoImageResponse \<Rightarrow> (Inl (RequestException None), w1)
             | ImageResponse status_code chunks broken \<Rightarrow>
                 (case raise_for_status status_code of
                    Some x \<Rightarrow> (Inl x, w1)
                  | None \<Rightarrow>
                      (let w2 = w1\<lparr>files := (files w1)(save_path \<mapsto> write_chunks chunks [])\<rparr>
                       in if broken then (Inl (RequestException None), w2)
                          else (Inr (), w2))))
          else (Inl (ValueError ''Unrecognized image_url format!''), w)
      | _ \<Rightarrow> (Inl (AttributeError ''startswith''), w))"

section \<open>The route\<close>

text \<open>
  Lines 178 to 207: from the dict of the COMPLETED answer to the dict of the success
  answer. \<open>Inl\<close> is the exception raised on the way.
\<close>

definition deliver :: "env \<Rightarrow> string \<Rightarrow> (string \<times> json) list \<Rightarrow> world \<Rightarrow> (exn + json) \<times> world" where
  "deliver e rid result w =
     (case parse_output result of
        Inl x \<Rightarrow> (Inl x, w)
      | Inr image_url \<Rightarrow>
          (case save_image e rid image_url w of
             (Inl x, w1) \<Rightarrow> (Inl x, w1)
           | (Inr _, w1) \<Rightarrow>
               (case upload_blob e (save_path_of rid) (rid @ ''.png'') w1 of
                  (Inl x, w2) \<Rightarrow> (Inl x, w2)
                | (Inr blob_url, w2) \<Rightarrow>
                    (Inr (JObj [(''status'', JStr ''success''),
                                (''image_url'', JStr (''/generated_images/'' @ rid @ ''.png'')),
                                (''blob_url'', blob_url)]), w2))))"

text \<open>
  The body of the \<^verbatim>\<open>try\<close> of \<^verbatim>\<open>generate_image\<close> (lines 153 to 207): \<open>Inl\<close> is
  the exception that leaves it, \<open>Inr\<close> the dict of the success answer.
  \<^verbatim>\<open>t_start\<close> is the clock when the loop is entered.
\<close>

definition run_generation ::
    "env \<Rightarrow> string \<Rightarrow> json \<Rightarrow> json \<Rightarrow> json \<Rightarrow> world \<Rightarrow> (exn + json) \<times> world" where
  "run_generation e rid prompt width height w =
     (case submit_job e prompt width height w of
        (Inl x, w1) \<Rightarrow> (Inl x, w1)
      | (Inr job_id, w1) \<Rightarrow>
          (let t_start = now w1 in
           case poll_loop e t_start 0 w1 of
             (Inl x, w2) \<Rightarrow> (Inl x, w2)
           | (Inr result, w2) \<Rightarrow> deliver e rid result w2))"

text \<open>\<^verbatim>\<open>', '.join(missing_config)\<close>.\<close>

fun join_comma :: "string list \<Rightarrow> string" where
  "join_comma [] = []"
| "join_comma [x] = x"
| "join_comma (x # y # ys) = x @ '', '' @ join_comma (y # ys)"

definition config_missing :: "string list \<Rightarrow> string \<Rightarrow> json" where
  "config_missing missing_config rid =
     JObj [(''status'', JStr ''error''),
           (''message'', JStr ''Service configuration incomplete''),
           (''user_message'',
              JStr (''The service is not properly configured. Missing: ''
                    @ join_comma missing_config)),
           (''error_code'', JStr ''CONFIG_MISSING''),
           (''request_id'', JStr rid),
           (''missing_config'', JList (map JStr missing_config))]"

text \<open>
  \<^verbatim>\<open>generate_image()\<close> from line 135 on, for a request that has passed the checks
  of lines 130 to 133 (\<open>rid\<close> is a GUID, \<open>prompt\<close> is truthy). The result is the
  answer's body with its HTTP status, and the world after the call.
\<close>

definition generate_image ::
    "env \<Rightarrow> string \<Rightarrow> json \<Rightarrow> json \<Rightarrow> json \<Rightarrow> world \<Rightarrow> (json \<times> int) \<times> world" where
  "generate_image e rid prompt width height w =
     (let missing_config = check_api_configuration (cfg e) in
      if missing_config \<noteq> [] then ((config_missing missing_config rid, 503), w)
      else
        (case run_generation e rid prompt width height w of
           (Inr body, w') \<Rightarrow> ((body, 200), w')
         | (Inl (RequestException r), w') \<Rightarrow>
             ((handle_api_error (RequestException r) rid, 400), w')
         | (Inl x, w') \<Rightarrow> ((handle_api_error x rid, 500), w')))"

section \<open>Runs of the polling loop\<close>

text \<open>
  The notions in which the properties are stated. A reply is pending when the loop
  goes on to its deadline check: the answer passes \<^verbatim>\<open>raise_for_status\<close>, its body
  is a dict and the status is none of COMPLETED, FAILED and CANCELLED. A submission is
  accepted when it passes \<^verbatim>\<open>raise_for_status\<close> and its body is a dict with a truthy
  \<^verbatim>\<open>id\<close>.
\<close>

fun pending :: "reply \<Rightarrow> bool" where
  "pending (Response status_code (JObj status_data)) =
     (raise_for_status status_code = None
      \<and> dict_get status_data ''status'' \<noteq> JStr ''COMPLETED''
      \<and> dict_get status_data ''status'' \<noteq> JStr ''FAILED''
      \<and> dict_get status_data ''status'' \<noteq> JStr ''CANCELLED'')"
| "pending _ = False"

fun accepted :: "reply \<Rightarrow> bool" where
  "accepted (Response status_code (JObj job_info)) =
     (raise_for_status status_code = None \<and> truthy (dict_get job_info ''id''))"
| "accepted _ = False"

text \<open>
  When the loop starts at time \<open>t\<close> and every poll so far was pending and in time,
  poll \<open>n\<close> is issued at \<open>issue_time e t n\<close> and answered at \<open>done_time e t n\<close>.
\<close>

fun issue_time :: "env \<Rightarrow> int \<Rightarrow> nat \<Rightarrow> int" where
  "issue_time e t 0 = t"
| "issue_time e t (Suc n) = issue_time e t n + int (poll_latency e n) + 2"

definition done_time :: "env \<Rightarrow> int \<Rightarrow> nat \<Rightarrow> int" where
  "done_time e t n = issue_time e t n + int (poll_latency e n)"

definition polls :: "env \<Rightarrow> int \<Rightarrow> nat \<Rightarrow> event list" where
  "polls e t n = map (\<lambda>k. Poll (issue_time e t k) (done_time e t k)) [0..<n]"

text \<open>The loop gets as far as poll \<open>n\<close>.\<close>

definition reaches :: "env \<Rightarrow> int \<Rightarrow> nat \<Rightarrow> bool" where
  "reaches e t n = (\<forall>k<n. pending (poll_reply e k) \<and> done_time e t k - t \<le> 120)"

text \<open>Poll \<open>n\<close> is reached and answers COMPLETED with the dict \<open>result\<close>.\<close>

definition completes_at :: "env \<Rightarrow> int \<Rightarrow> nat \<Rightarrow> (string \<times> json) list \<Rightarrow> bool" where
  "completes_at e t n result =
     (reaches e t n \<and>
      (case poll_reply e n of
         Response status_code (JObj status_data) \<Rightarrow>
           raise_for_status status_code = None \<and> status_data = result
           \<and> dict_get status_data ''status'' = JStr ''COMPLETED''
       | _ \<Rightarrow> False))"

text \<open>The world after the POST, after the answer to poll \<open>n\<close>, and after the sleep.\<close>

definition posted :: "json \<Rightarrow> json \<Rightarrow> json \<Rightarrow> world \<Rightarrow> world" where
  "posted prompt width height w =
     w\<lparr>trace := trace w @
          [Post (JObj [(''input'',
             JObj [(''prompt'', prompt), (''width'', width), (''height'', height)])])]\<rparr>"

definition answered :: "env \<Rightarrow> nat \<Rightarrow> world \<Rightarrow> world" where
  "answered e n w =
     w\<lparr>now := now w + int (poll_latency e n),
       trace := trace w @ [Poll (now w) (now w + int (poll_latency e n))]\<rparr>"

definition slept :: "world \<Rightarrow> world" where
  "slept w = w\<lparr>now := now w + 2\<rparr>"

definition at_poll :: "env \<Rightarrow> int \<Rightarrow> nat \<Rightarrow> world \<Rightarrow> world" where
  "at_poll e t n w = w\<lparr>now := issue_time e t n, trace := trace w @ polls e t n\<rparr>"

text \<open>A field of an answer's body.\<close>

definition obj_get :: "json \<Rightarrow> string \<Rightarrow> json" where
  "obj_get j k = (case j of JObj d \<Rightarrow> dict_get d k | _ \<Rightarrow> JNull)"

text \<open>The status code of an answer, when there is an answer.\<close>

definition status_code_of :: "reply \<Rightarrow> int option" where
  "status_code_of r =
     (case r of NoResponse \<Rightarrow> None | Response sc body \<Rightarrow> Some sc | NonJson sc \<Rightarrow> Some sc)"

definition image_status_code_of :: "image_reply \<Rightarrow> int option" where
  "image_status_code_of r =
     (case r of NoImageResponse \<Rightarrow> None | ImageResponse sc chunks broken \<Rightarrow> Some sc)"

section \<open>Sample configurations, environments and requests\<close>

definition cfg_ok :: config where
  "cfg_ok = \<lparr>API_TOKEN = Some ''rp-token'', BEARER_TOKEN = Some ''bearer'',
              AZURE_CONN_STR = Some ''UseDevelopmentStorage=true'', CONTAINER_NAME = ''images''\<rparr>"

definition cfg_no_bearer :: config where
  "cfg_no_bearer = cfg_ok\<lparr>BEARER_TOKEN := None, AZURE_CONN_STR := Some []\<rparr>"

definition azure_ok :: azure where
  "azure_ok = \<lparr>client_error = None, container_client_error = None,
                create_container_error = None, blob_client_error = None,
                upload_error = None\<rparr>"

definition world0 :: world where
  "world0 = \<lparr>now = 0, files = Map.empty, containers = {}, blobs = Map.empty, trace = []\<rparr>"

definition rid0 :: string where
  "rid0 = ''550e8400-e29b-41d4-a716-446655440000''"

definition job_created :: reply where
  "job_created = Response 200 (JObj [(''id'', JStr ''job-1'')])"

definition in_progress :: reply where
  "in_progress = Response 200 (JObj [(''status'', JStr ''IN_PROGRESS'')])"

definition completed :: "json \<Rightarrow> reply" where
  "completed output = Response 200 (JObj [(''status'', JStr ''COMPLETED''), (''output'', output)])"

definition stopped :: "string \<Rightarrow> string \<Rightarrow> reply" where
  "stopped status reason =
     Response 200 (JObj [(''status'', JStr status), (''error'', JStr reason)])"

text \<open>
  An environment with a complete configuration, no latency and a working blob store,
  given the answer to the POST, the answers to the polls and the answer to a download.
\<close>

definition sample_env :: "reply \<Rightarrow> (nat \<Rightarrow> reply) \<Rightarrow> image_reply \<Rightarrow> env" where
  "sample_env p q i =
     \<lparr>cfg = cfg_ok, post_reply = p, poll_reply = q, poll_latency = (\<lambda>_. 0),
      image_reply = (\<lambda>_. i), storage = azure_ok\<rparr>"

text \<open>\<^verbatim>\<open>IN_PROGRESS\<close> twice, then COMPLETED with the given output.\<close>

definition third_poll_env :: "json \<Rightarrow> image_reply \<Rightarrow> env" where
  "third_poll_env output i =
     sample_env job_created (\<lambda>n. if n < 2 then in_progress else completed output) i"

definition never_done_env :: env where
  "never_done_env = sample_env job_created (\<lambda>_. in_progress) NoImageResponse"

definition stopped_env :: "string \<Rightarrow> string \<Rightarrow> env" where
  "stopped_env status reason =
     sample_env job_created (\<lambda>_. stopped status reason) NoImageResponse"

definition bad_connection_env :: env where
  "bad_connection_env =
     (third_poll_env (JStr ''data:image/png;base64,AAAA'') NoImageResponse)
       \<lparr>storage := azure_ok\<lparr>client_error :=
            Some (ValueError ''Connection string is either blank or malformed.'')\<rparr>\<rparr>"

declare poll_loop.simps [simp del]

declare decimal.simps [simp del]

section \<open>The polling loop, step by step\<close>

lemma pendingE:
  assumes "pending r"
  obtains sc d where "r = Response sc (JObj d)" "raise_for_status sc = None"
    "dict_get d ''status'' \<noteq> JStr ''COMPLETED''"
    "dict_get d ''status'' \<noteq> JStr ''FAILED''"
    "dict_get d ''status'' \<noteq> JStr ''CANCELLED''"
  using assms by (cases r rule: pending.cases) auto

lemma acceptedE:
  assumes "accepted r"
  obtains sc d where "r = Response sc (JObj d)" "raise_for_status sc = None"
    "truthy (dict_get d ''id'')"
  using assms by (cases r rule: accepted.cases) auto

lemma poll_loop_unfold:
  "poll_loop e t0 n w =
     (case poll_reply e n of
        NoResponse \<Rightarrow> (Inl (RequestException None), answered e n w)
      | Response status_code body \<Rightarrow>
          (case raise_for_status status_code of
             Some x \<Rightarrow> (Inl x, answered e n w)
           | None \<Rightarrow>
               (case body of
                  JObj status_data \<Rightarrow>
                    if dict_get status_data ''status'' = JStr ''COMPLETED''
                    then (Inr status_data, answered e n w)
                    else if dict_get status_data ''status'' = JStr ''FAILED''
                            \<or> dict_get status_data ''status'' = JStr ''CANCELLED''
                    then (Inl (RuntimeError (dict_get status_data ''status'')
                                 (dict_get_default status_data ''error'' (JStr []))),
                          answered e n w)
                    else if now (answered e n w) - t0 > 120
                    then (Inl (TimeoutError ''Timed out waiting for completed job.''),
                          answered e n w)
                    else poll_loop e t0 (Suc n) (slept (answered e n w))
                | _ \<Rightarrow> (Inl (AttributeError ''get''), answered e n w)))
      | NonJson status_code \<Rightarrow>
          (case raise_for_status status_code of
             Some x \<Rightarrow> (Inl x, answered e n w)
           | None \<Rightarrow> (Inl (RequestException None), answered e n w)))"
  by (subst poll_loop.simps)
     (simp add: Let_def answered_def slept_def split: reply.split option.split json.split)

lemma poll_loop_pending:
  assumes "pending (poll_reply e n)"
  shows "poll_loop e t0 n w =
     (if now (answered e n w) - t0 > 120
      then (Inl (TimeoutError ''Timed out waiting for completed job.''), answered e n w)
      else poll_loop e t0 (Suc n) (slept (answered e n w)))"
proof -
  from assms obtain sc d where r: "poll_reply e n = Response sc (JObj d)"
    "raise_for_status sc = None"
    "dict_get d ''status'' \<noteq> JStr ''COMPLETED''"
    "dict_get d ''status'' \<noteq> JStr ''FAILED''"
    "dict_get d ''status'' \<noteq> JStr ''CANCELLED''"
    by (rule pendingE)
  show ?thesis
    by (subst poll_loop_unfold) (simp add: r)
qed

lemma poll_loop_no_response:
  "poll_reply e n = NoResponse \<Longrightarrow>
   poll_loop e t0 n w = (Inl (RequestException None), answered e n w)"
  by (subst poll_loop_unfold) simp

lemma poll_loop_http_error:
  "poll_reply e n = Response sc body \<Longrightarrow> 400 \<le> sc \<Longrightarrow> sc < 600 \<Longrightarrow>
   poll_loop e t0 n w = (Inl (RequestException (Some sc)), answered e n w)"
  by (subst poll_loop_unfold) (simp add: raise_for_status_def)

lemma poll_loop_http_error_not_json:
  "poll_reply e n = NonJson sc \<Longrightarrow> 400 \<le> sc \<Longrightarrow> sc < 600 \<Longrightarrow>
   poll_loop e t0 n w = (Inl (RequestException (Some sc)), answered e n w)"
  by (subst poll_loop_unfold) (simp add: raise_for_status_def)

lemma poll_loop_completed:
  "poll_reply e n = Response sc (JObj d) \<Longrightarrow> raise_for_status sc = None \<Longrightarrow>
   dict_get d ''status'' = JStr ''COMPLETED'' \<Longrightarrow>
   poll_loop e t0 n w = (Inr d, answered e n w)"
  by (subst poll_loop_unfold) simp

lemma poll_loop_stopped:
  "poll_reply e n = Response sc (JObj d) \<Longrightarrow> raise_for_status sc = None \<Longrightarrow>
   dict_get d ''status'' = JStr st \<Longrightarrow> st = ''FAILED'' \<or> st = ''CANCELLED'' \<Longrightarrow>
   poll_loop e t0 n w =
     (Inl (RuntimeError (JStr st) (dict_get_default d ''error'' (JStr []))), answered e n w)"
  by (subst poll_loop_unfold) auto

lemma at_poll_0: "at_poll e (now w) 0 w = w"
  by (rule world.equality) (simp_all add: at_poll_def polls_def)

lemma now_answered_at_poll: "now (answered e m (at_poll e t m w)) = done_time e t m"
  by (simp add: answered_def at_poll_def done_time_def)

lemma at_poll_Suc: "slept (answered e m (at_poll e t m w)) = at_poll e t (Suc m) w"
  by (rule world.equality)
     (simp_all add: at_poll_def polls_def done_time_def answered_def slept_def)

lemma answered_at_poll:
  "answered e m (at_poll e t m w) =
   w\<lparr>now := done_time e t m, trace := trace w @ polls e t (Suc m)\<rparr>"
  by (rule world.equality)
     (simp_all add: at_poll_def polls_def done_time_def answered_def)

lemma poll_loop_reach:
  assumes "reaches e (now w) m"
  shows "poll_loop e (now w) 0 w = poll_loop e (now w) m (at_poll e (now w) m w)"
  using assms
proof (induction m)
  case 0
  then show ?case by (simp add: at_poll_0)
next
  case (Suc m)
  then have r: "reaches e (now w) m" and p: "pending (poll_reply e m)"
    and d: "done_time e (now w) m - now w \<le> 120"
    by (auto simp: reaches_def)
  have "poll_loop e (now w) 0 w = poll_loop e (now w) m (at_poll e (now w) m w)"
    by (rule Suc.IH [OF r])
  also have "\<dots> = poll_loop e (now w) (Suc m) (at_poll e (now w) (Suc m) w)"
    using d by (simp add: poll_loop_pending [OF p] now_answered_at_poll at_poll_Suc)
  finally show ?case .
qed

lemma issue_time_lower: "t + 2 * int n \<le> issue_time e t n"
  by (induction n) auto

lemma done_time_lower: "t + 2 * int n \<le> done_time e t n"
  using issue_time_lower [of t n e] by (simp add: done_time_def)

lemma poll_loop_timeout:
  assumes "reaches e (now w) m" and "pending (poll_reply e m)"
    and "done_time e (now w) m - now w > 120"
  shows "poll_loop e (now w) 0 w =
         (Inl (TimeoutError ''Timed out waiting for completed job.''),
          answered e m (at_poll e (now w) m w))"
  using assms(3)
  by (simp add: poll_loop_reach [OF assms(1)] poll_loop_pending [OF assms(2)]
        now_answered_at_poll)

lemma never_done_deadline:
  assumes "\<forall>k. pending (poll_reply e k)"
  obtains m where "m \<le> 61" "reaches e t m" "done_time e t m - t > 120"
proof -
  define m where "m = (LEAST k. done_time e t k - t > 120)"
  have ex: "done_time e t 61 - t > 120"
    using done_time_lower [of t 61 e] by simp
  have 1: "done_time e t m - t > 120"
    unfolding m_def using ex by (rule LeastI)
  have 2: "m \<le> 61"
    unfolding m_def using ex by (rule Least_le)
  have 3: "\<not> done_time e t k - t > 120" if "k < m" for k
    using that not_less_Least unfolding m_def by blast
  have "reaches e t m"
    using assms 3 by (auto simp: reaches_def not_less)
  with 1 2 that show ?thesis by blast
qed

lemma issue_time_bound:
  assumes "reaches e t m" and "k \<le> m"
  shows "issue_time e t k \<le> t + 122"
proof (cases k)
  case 0
  then show ?thesis by simp
next
  case (Suc j)
  with assms have "done_time e t j - t \<le> 120" by (simp add: reaches_def)
  with Suc show ?thesis by (simp add: done_time_def)
qed

section \<open>The files are touched by the download only\<close>

lemma files_answered [simp]: "files (answered e n w) = files w"
  by (simp add: answered_def)

lemma files_slept [simp]: "files (slept w) = files w"
  by (simp add: slept_def)

lemma files_posted [simp]: "files (posted p wd h w) = files w"
  by (simp add: posted_def)

lemma now_posted [simp]: "now (posted p wd h w) = now w"
  by (simp add: posted_def)

lemma files_at_poll [simp]: "files (at_poll e t n w) = files w"
  by (simp add: at_poll_def)

lemma files_poll_loop: "files (snd (poll_loop e t0 n w)) = files w"
proof (induction e t0 n w rule: poll_loop.induct)
  case (1 e t_start n w)
  show ?case
    apply (subst poll_loop_unfold)
    apply (simp split: reply.split option.split json.split)
    apply (intro allI impI conjI)
    subgoal premises p for sc d
      using "1" [OF refl, of sc "JObj d" d] p
      by (simp add: answered_def slept_def)
    done
qed

section \<open>From the loop to the answer of the route\<close>

lemma submit_job_accepted:
  assumes "accepted (post_reply e)"
  shows "\<exists>job_id. submit_job e p wd h w = (Inr job_id, posted p wd h w)"
proof -
  from assms obtain sc d where "post_reply e = Response sc (JObj d)"
    "raise_for_status sc = None" "truthy (dict_get d ''id'')"
    by (rule acceptedE)
  then show ?thesis
    by (simp add: submit_job_def posted_def Let_def)
qed

lemma run_generation_at:
  assumes "accepted (post_reply e)" and "reaches e (now w) n"
  shows "run_generation e rid p wd h w =
     (case poll_loop e (now w) n (at_poll e (now w) n (posted p wd h w)) of
        (Inl x, w2) \<Rightarrow> (Inl x, w2)
      | (Inr result, w2) \<Rightarrow> deliver e rid result w2)"
proof -
  obtain job_id where s: "submit_job e p wd h w = (Inr job_id, posted p wd h w)"
    using submit_job_accepted [OF assms(1)] by blast
  have r: "reaches e (now (posted p wd h w)) n"
    using assms(2) by simp
  show ?thesis
    using poll_loop_reach [OF r] by (simp add: run_generation_def s)
qed

lemma generate_image_raised:
  assumes "check_api_configuration (cfg e) = []"
    and "run_generation e rid p wd h w = (Inl x, w')"
  shows "generate_image e rid p wd h w =
     ((handle_api_error x rid, case x of RequestException _ \<Rightarrow> 400 | _ \<Rightarrow> 500), w')"
  using assms by (cases x) (simp_all add: generate_image_def)

lemma generate_image_returned:
  assumes "check_api_configuration (cfg e) = []"
    and "run_generation e rid p wd h w = (Inr body, w')"
  shows "generate_image e rid p wd h w = ((body, 200), w')"
  using assms by (simp add: generate_image_def)

section \<open>The health endpoint\<close>

lemma unconfigured_iff:
  "unconfigured v p \<longleftrightarrow> v \<in> {None, Some [], Some p}"
  by (cases v) (auto simp: unconfigured_def)

text \<open>
  C10. The health endpoint answers 200 with status "healthy" exactly when each of
  API_TOKEN, BEARER_TOKEN and AZURE_CONN_STR is set (present and not empty) and is not
  its placeholder; otherwise it answers 503 with status "degraded". Its
  \<^verbatim>\<open>missing_config\<close> field lists the names of the values that are missing.
\<close>

theorem health_check_healthy_iff_configured:
  fixes c :: config and ts :: int
  shows
   "((snd (health_check c ts) = 200
        \<and> obj_get (fst (health_check c ts)) ''status'' = JStr ''healthy'')
      \<longleftrightarrow> (API_TOKEN c \<notin> {None, Some [], Some ''your_runpod_api_token_here''}
           \<and> BEARER_TOKEN c \<notin> {None, Some [], Some ''your_bearer_token_here''}
           \<and> AZURE_CONN_STR c \<notin> {None, Some [], Some ''your_azure_connection_string_here''}))
    \<and> ((snd (health_check c ts) = 503
          \<and> obj_get (fst (health_check c ts)) ''status'' = JStr ''degraded'')
        \<or> (snd (health_check c ts) = 200
          \<and> obj_get (fst (health_check c ts)) ''status'' = JStr ''healthy''))
    \<and> obj_get (obj_get (fst (health_check c ts)) ''configuration'') ''missing_config''
        = JList (map JStr (map fst (filter (\<lambda>(name, v, p). v \<in> {None, Some [], Some p})
            [(''API_TOKEN'', API_TOKEN c, ''your_runpod_api_token_here''),
             (''BEARER_TOKEN'', BEARER_TOKEN c, ''your_bearer_token_here''),
             (''AZURE_CONN_STR'', AZURE_CONN_STR c, ''your_azure_connection_string_here'')])))"
  by (simp add: health_check_def check_api_configuration_def unconfigured_iff Let_def
        obj_get_def dict_get_def dict_get_default_def)

theorem health_check_healthy_iff_configured_witness:
  "snd (health_check cfg_ok 0) = 200
   \<and> obj_get (fst (health_check cfg_ok 0)) ''status'' = JStr ''healthy''
   \<and> snd (health_check cfg_no_bearer 0) = 503
   \<and> obj_get (fst (health_check cfg_no_bearer 0)) ''status'' = JStr ''degraded''
   \<and> obj_get (obj_get (fst (health_check cfg_no_bearer 0)) ''configuration'') ''missing_config''
       = JList [JStr ''BEARER_TOKEN'', JStr ''AZURE_CONN_STR'']"
proof -
  have ok: "API_TOKEN cfg_ok \<notin> {None, Some [], Some ''your_runpod_api_token_here''}
      \<and> BEARER_TOKEN cfg_ok \<notin> {None, Some [], Some ''your_bearer_token_here''}
      \<and> AZURE_CONN_STR cfg_ok \<notin> {None, Some [], Some ''your_azure_connection_string_here''}"
    by (simp add: cfg_ok_def)
  have 1: "snd (health_check cfg_ok 0) = 200
      \<and> obj_get (fst (health_check cfg_ok 0)) ''status'' = JStr ''healthy''"
    using health_check_healthy_iff_configured [of cfg_ok 0] ok by blast
  have bad: "BEARER_TOKEN cfg_no_bearer \<in> {None, Some [], Some ''your_bearer_token_here''}"
    by (simp add: cfg_no_bearer_def)
  have 2: "snd (health_check cfg_no_bearer 0) = 503
      \<and> obj_get (fst (health_check cfg_no_bearer 0)) ''status'' = JStr ''degraded''"
    using health_check_healthy_iff_configured [of cfg_no_bearer 0] bad by blast
  have 3: "obj_get (obj_get (fst (health_check cfg_no_bearer 0)) ''configuration'')
             ''missing_config'' = JList [JStr ''BEARER_TOKEN'', JStr ''AZURE_CONN_STR'']"
    using health_check_healthy_iff_configured [of cfg_no_bearer 0]
    by (simp add: cfg_no_bearer_def cfg_ok_def)
  from 1 2 3 show ?thesis by blast
qed

section \<open>Runs that end in the loop or after it\<close>

lemma completes_atE:
  assumes "completes_at e t n result"
  obtains sc where "reaches e t n" "poll_reply e n = Response sc (JObj result)"
    "raise_for_status sc = None" "dict_get result ''status'' = JStr ''COMPLETED''"
  using assms
  by (auto simp: completes_at_def split: reply.splits json.splits)

lemma run_generation_completed:
  assumes "accepted (post_reply e)" and "completes_at e (now w) n result"
  shows "run_generation e rid p wd h w =
         deliver e rid result (answered e n (at_poll e (now w) n (posted p wd h w)))"
proof -
  from assms(2) obtain sc where r: "reaches e (now w) n"
    and c: "poll_reply e n = Response sc (JObj result)" "raise_for_status sc = None"
      "dict_get result ''status'' = JStr ''COMPLETED''"
    by (rule completes_atE)
  show ?thesis
    by (simp add: run_generation_at [OF assms(1) r] poll_loop_completed [OF c])
qed

lemma run_generation_poll_error:
  assumes "accepted (post_reply e)" and "reaches e (now w) n"
    and "poll_loop e (now w) n (at_poll e (now w) n (posted p wd h w)) = (Inl x, w')"
  shows "run_generation e rid p wd h w = (Inl x, w')"
  by (simp add: run_generation_at [OF assms(1,2)] assms(3))

lemma submit_job_http_error:
  "post_reply e = Response sc body \<Longrightarrow> 400 \<le> sc \<Longrightarrow> sc < 600 \<Longrightarrow>
   submit_job e p wd h w = (Inl (RequestException (Some sc)), posted p wd h w)"
  by (simp add: submit_job_def raise_for_status_def posted_def Let_def)

lemma submit_job_http_error_not_json:
  "post_reply e = NonJson sc \<Longrightarrow> 400 \<le> sc \<Longrightarrow> sc < 600 \<Longrightarrow>
   submit_job e p wd h w = (Inl (RequestException (Some sc)), posted p wd h w)"
  by (simp add: submit_job_def raise_for_status_def posted_def Let_def)

lemma submit_job_no_response:
  "post_reply e = NoResponse \<Longrightarrow>
   submit_job e p wd h w = (Inl (RequestException None), posted p wd h w)"
  by (simp add: submit_job_def posted_def Let_def)

lemma run_generation_submit_error:
  "submit_job e p wd h w = (Inl x, w') \<Longrightarrow> run_generation e rid p wd h w = (Inl x, w')"
  by (simp add: run_generation_def)

lemma save_image_http_error:
  assumes "\<not> startswith url ''data:image''" and "startswith url ''http''"
    and "image_reply e url = ImageResponse sc chunks broken" and "400 \<le> sc" and "sc < 600"
  shows "save_image e rid (JStr url) w =
         (Inl (RequestException (Some sc)), w\<lparr>trace := trace w @ [Fetch url]\<rparr>)"
  using assms by (simp add: save_image_def raise_for_status_def Let_def)

lemma save_image_no_response:
  assumes "\<not> startswith url ''data:image''" and "startswith url ''http''"
    and "image_reply e url = NoImageResponse"
  shows "save_image e rid (JStr url) w =
         (Inl (RequestException None), w\<lparr>trace := trace w @ [Fetch url]\<rparr>)"
  using assms by (simp add: save_image_def Let_def)

lemma deliver_save_error:
  "parse_output result = Inr image_url \<Longrightarrow> save_image e rid image_url w = (Inl x, w') \<Longrightarrow>
   deliver e rid result w = (Inl x, w')"
  by (simp add: deliver_def)

lemma deliver_parse_error:
  "parse_output result = Inl x \<Longrightarrow> deliver e rid result w = (Inl x, w)"
  by (simp add: deliver_def)

section \<open>Error statuses of the external API\<close>

lemma handle_api_error_fields:
  assumes "sc = 401 \<or> sc = 403 \<or> sc = 429 \<or> (500 \<le> sc \<and> sc \<le> 599)"
  shows "obj_get (handle_api_error (RequestException (Some sc)) rid) ''error_code'' =
           JStr (if sc = 401 then ''AUTH_FAILED'' else if sc = 403 then ''ACCESS_FORBIDDEN''
                 else if sc = 429 then ''RATE_LIMITED'' else ''SERVICE_ERROR'')"
    and "obj_get (handle_api_error (RequestException (Some sc)) rid) ''status'' = JStr ''error''"
    and "\<exists>m u. obj_get (handle_api_error (RequestException (Some sc)) rid) ''message'' = JStr m
           \<and> obj_get (handle_api_error (RequestException (Some sc)) rid) ''user_message''
               = JStr u \<and> m \<noteq> u"
  using assms
  by (auto simp: error_dict_def obj_get_def dict_get_def dict_get_default_def)

text \<open>
  C3. When the external API answers with status 401, 403, 429 or one of 500 to 599, at
  the submission, at a status poll or at the image download, the caller gets (with HTTP
  status 400) the dict that \<^verbatim>\<open>handle_api_error\<close> builds from the status code alone:
  its error code is AUTH_FAILED, ACCESS_FORBIDDEN, RATE_LIMITED or SERVICE_ERROR, and
  its user message differs from its technical message. The body of the answer plays no
  part, whether it is JSON or not: \<^verbatim>\<open>raise_for_status()\<close> comes before
  \<^verbatim>\<open>response.json()\<close>.
\<close>

theorem http_error_status_mapping:
  assumes "sc = 401 \<or> sc = 403 \<or> sc = 429 \<or> (500 \<le> sc \<and> sc \<le> 599)"
    and "check_api_configuration (cfg e) = []"
  shows
   "obj_get (handle_api_error (RequestException (Some sc)) rid) ''error_code'' =
       JStr (if sc = 401 then ''AUTH_FAILED'' else if sc = 403 then ''ACCESS_FORBIDDEN''
             else if sc = 429 then ''RATE_LIMITED'' else ''SERVICE_ERROR'')
    \<and> obj_get (handle_api_error (RequestException (Some sc)) rid) ''status'' = JStr ''error''
    \<and> (\<exists>m u. obj_get (handle_api_error (RequestException (Some sc)) rid) ''message'' = JStr m
           \<and> obj_get (handle_api_error (RequestException (Some sc)) rid) ''user_message''
               = JStr u \<and> m \<noteq> u)
    \<and> (post_reply e = Response sc body \<longrightarrow>
         fst (generate_image e rid p wd h w)
           = (handle_api_error (RequestException (Some sc)) rid, 400))
    \<and> (accepted (post_reply e) \<and> reaches e (now w) n \<and> poll_reply e n = Response sc body \<longrightarrow>
         fst (generate_image e rid p wd h w)
           = (handle_api_error (RequestException (Some sc)) rid, 400))
    \<and> (accepted (post_reply e) \<and> completes_at e (now w) n result
         \<and> parse_output result = Inr (JStr url)
         \<and> \<not> startswith url ''data:image'' \<and> startswith url ''http''
         \<and> image_reply e url = ImageResponse sc chunks broken \<longrightarrow>
         fst (generate_image e rid p wd h w)
           = (handle_api_error (RequestException (Some sc)) rid, 400))
    \<and> (post_reply e = NonJson sc \<longrightarrow>
         fst (generate_image e rid p wd h w)
           = (handle_api_error (RequestException (Some sc)) rid, 400))
    \<and> (accepted (post_reply e) \<and> reaches e (now w) n \<and> poll_reply e n = NonJson sc \<longrightarrow>
         fst (generate_image e rid p wd h w)
           = (handle_api_error (RequestException (Some sc)) rid, 400))"
proof -
  have range: "400 \<le> sc" "sc < 600"
    using assms(1) by auto
  have submit_text: "fst (generate_image e rid p wd h w)
           = (handle_api_error (RequestException (Some sc)) rid, 400)"
    if "post_reply e = NonJson sc"
    using generate_image_raised [OF assms(2)
        run_generation_submit_error [OF submit_job_http_error_not_json [OF that range]]]
    by simp
  have poll_text: "fst (generate_image e rid p wd h w)
           = (handle_api_error (RequestException (Some sc)) rid, 400)"
    if "accepted (post_reply e)" "reaches e (now w) n" "poll_reply e n = NonJson sc"
    using generate_image_raised [OF assms(2)
        run_generation_poll_error [OF that(1,2)
          poll_loop_http_error_not_json [OF that(3) range]]]
    by simp
  have submit: "fst (generate_image e rid p wd h w)
           = (handle_api_error (RequestException (Some sc)) rid, 400)"
    if "post_reply e = Response sc body"
    using generate_image_raised [OF assms(2)
        run_generation_submit_error [OF submit_job_http_error [OF that range]]]
    by simp
  have poll: "fst (generate_image e rid p wd h w)
           = (handle_api_error (RequestException (Some sc)) rid, 400)"
    if "accepted (post_reply e)" "reaches e (now w) n" "poll_reply e n = Response sc body"
    using generate_image_raised [OF assms(2)
        run_generation_poll_error [OF that(1,2) poll_loop_http_error [OF that(3) range]]]
    by simp
  have fetch: "fst (generate_image e rid p wd h w)
           = (handle_api_error (RequestException (Some sc)) rid, 400)"
    if "accepted (post_reply e)" "completes_at e (now w) n result"
      "parse_output result = Inr (JStr url)"
      "\<not> startswith url ''data:image''" "startswith url ''http''"
      "image_reply e url = ImageResponse sc chunks broken"
  proof -
    have "run_generation e rid p wd h w =
       (Inl (RequestException (Some sc)),
        (answered e n (at_poll e (now w) n (posted p wd h w)))
          \<lparr>trace := trace (answered e n (at_poll e (now w) n (posted p wd h w))) @ [Fetch url]\<rparr>)"
      by (simp add: run_generation_completed [OF that(1,2)]
            deliver_save_error [OF that(3) save_image_http_error [OF that(4,5,6) range]])
    from generate_image_raised [OF assms(2) this] show ?thesis by simp
  qed
  show ?thesis
    using handle_api_error_fields [OF assms(1), of rid] submit poll fetch submit_text poll_text
    by blast
qed

theorem http_error_status_mapping_witness:
  "fst (generate_image (sample_env (Response 401 JNull) (\<lambda>_. in_progress) NoImageResponse)
          rid0 (JStr ''x'') (JInt 256) (JInt 256) world0)
     = (handle_api_error (RequestException (Some 401)) rid0, 400)
   \<and> obj_get (handle_api_error (RequestException (Some 401)) rid0) ''error_code''
       = JStr ''AUTH_FAILED''
   \<and> fst (generate_image
            (sample_env job_created (\<lambda>n. if n < 1 then in_progress else Response 503 JNull)
               NoImageResponse)
            rid0 (JStr ''x'') (JInt 256) (JInt 256) world0)
     = (handle_api_error (RequestException (Some 503)) rid0, 400)
   \<and> obj_get (handle_api_error (RequestException (Some 503)) rid0) ''error_code''
       = JStr ''SERVICE_ERROR''
   \<and> fst (generate_image
            (third_poll_env (JStr ''http://cdn.example/x.png'') (ImageResponse 429 [] False))
            rid0 (JStr ''x'') (JInt 256) (JInt 256) world0)
     = (handle_api_error (RequestException (Some 429)) rid0, 400)
   \<and> obj_get (handle_api_error (RequestException (Some 429)) rid0) ''error_code''
       = JStr ''RATE_LIMITED''
   \<and> fst (generate_image (sample_env (NonJson 502) (\<lambda>_. in_progress) NoImageResponse)
          rid0 (JStr ''x'') (JInt 256) (JInt 256) world0)
     = (handle_api_error (RequestException (Some 502)) rid0, 400)
   \<and> obj_get (handle_api_error (RequestException (Some 502)) rid0) ''error_code''
       = JStr ''SERVICE_ERROR''"
proof -
  let ?e1 = "sample_env (Response 401 JNull) (\<lambda>_. in_progress) NoImageResponse"
  let ?e4 = "sample_env (NonJson 502) (\<lambda>_. in_progress) NoImageResponse"
  let ?e2 = "sample_env job_created (\<lambda>n. if n < 1 then in_progress else Response 503 JNull)
               NoImageResponse"
  let ?e3 = "third_poll_env (JStr ''http://cdn.example/x.png'') (ImageResponse 429 [] False)"
  let ?r3 = "[(''status'', JStr ''COMPLETED''), (''output'', JStr ''http://cdn.example/x.png'')]"
  have c1: "check_api_configuration (cfg ?e1) = []"
    and c2: "check_api_configuration (cfg ?e2) = []"
    and c3: "check_api_configuration (cfg ?e3) = []"
    and c4: "check_api_configuration (cfg ?e4) = []"
    by (simp_all add: sample_env_def third_poll_env_def cfg_ok_def
          check_api_configuration_def unconfigured_def)
  have p1: "post_reply ?e1 = Response 401 JNull"
    by (simp add: sample_env_def)
  have p2: "accepted (post_reply ?e2) \<and> reaches ?e2 (now world0) 1
      \<and> poll_reply ?e2 1 = Response 503 JNull"
    by (simp add: sample_env_def job_created_def in_progress_def reaches_def done_time_def
          raise_for_status_def dict_get_def dict_get_default_def world0_def)
  have p3: "accepted (post_reply ?e3) \<and> completes_at ?e3 (now world0) 2 ?r3
      \<and> parse_output ?r3 = Inr (JStr ''http://cdn.example/x.png'')
      \<and> \<not> startswith ''http://cdn.example/x.png'' ''data:image''
      \<and> startswith ''http://cdn.example/x.png'' ''http''
      \<and> image_reply ?e3 ''http://cdn.example/x.png'' = ImageResponse 429 [] False"
    by (simp add: sample_env_def third_poll_env_def job_created_def in_progress_def
          completed_def completes_at_def reaches_def done_time_def raise_for_status_def
          dict_get_def dict_get_default_def world0_def parse_output_def startswith_def
          less_Suc_eq numeral_2_eq_2)
  have a: "(401::int) = 401 \<or> (401::int) = 403 \<or> (401::int) = 429
      \<or> (500 \<le> (401::int) \<and> (401::int) \<le> 599)"
    and b: "(503::int) = 401 \<or> (503::int) = 403 \<or> (503::int) = 429
      \<or> (500 \<le> (503::int) \<and> (503::int) \<le> 599)"
    and c: "(429::int) = 401 \<or> (429::int) = 403 \<or> (429::int) = 429
      \<or> (500 \<le> (429::int) \<and> (429::int) \<le> 599)"
    by simp_all
  from http_error_status_mapping [OF a c1, of rid0 JNull "JStr ''x''" "JInt 256" "JInt 256" world0]
    p1
  have 1: "fst (generate_image ?e1 rid0 (JStr ''x'') (JInt 256) (JInt 256) world0)
     = (handle_api_error (RequestException (Some 401)) rid0, 400)
   \<and> obj_get (handle_api_error (RequestException (Some 401)) rid0) ''error_code''
       = JStr ''AUTH_FAILED''"
    by simp
  from http_error_status_mapping [OF b c2, of rid0 JNull "JStr ''x''" "JInt 256" "JInt 256" world0 1]
    p2
  have 2: "fst (generate_image ?e2 rid0 (JStr ''x'') (JInt 256) (JInt 256) world0)
     = (handle_api_error (RequestException (Some 503)) rid0, 400)
   \<and> obj_get (handle_api_error (RequestException (Some 503)) rid0) ''error_code''
       = JStr ''SERVICE_ERROR''"
    by simp
  from http_error_status_mapping [OF c c3, of rid0 _ "JStr ''x''" "JInt 256" "JInt 256" world0 2
      ?r3 "''http://cdn.example/x.png''" "[]" False]
    p3
  have 3: "fst (generate_image ?e3 rid0 (JStr ''x'') (JInt 256) (JInt 256) world0)
     = (handle_api_error (RequestException (Some 429)) rid0, 400)
   \<and> obj_get (handle_api_error (RequestException (Some 429)) rid0) ''error_code''
       = JStr ''RATE_LIMITED''"
    by simp
  have p4: "post_reply ?e4 = NonJson 502"
    by (simp add: sample_env_def)
  have d: "(502::int) = 401 \<or> (502::int) = 403 \<or> (502::int) = 429
      \<or> (500 \<le> (502::int) \<and> (502::int) \<le> 599)"
    by simp
  from http_error_status_mapping [OF d c4, of rid0 _ "JStr ''x''" "JInt 256" "JInt 256" world0]
    p4
  have 4: "fst (generate_image ?e4 rid0 (JStr ''x'') (JInt 256) (JInt 256) world0)
     = (handle_api_error (RequestException (Some 502)) rid0, 400)
   \<and> obj_get (handle_api_error (RequestException (Some 502)) rid0) ''error_code''
       = JStr ''SERVICE_ERROR''"
    by simp
  from 1 2 3 4 show ?thesis by blast
qed

section \<open>The deadline of the polling loop\<close>

lemma run_generation_loop_error:
  assumes "accepted (post_reply e)"
    and "poll_loop e (now w) 0 (posted p wd h w) = (Inl x, w')"
  shows "run_generation e rid p wd h w = (Inl x, w')"
proof -
  have r: "reaches e (now w) 0"
    by (simp add: reaches_def)
  have "at_poll e (now w) 0 (posted p wd h w) = posted p wd h w"
    using at_poll_0 [of e "posted p wd h w"] by simp
  with assms(2) show ?thesis
    by (simp add: run_generation_at [OF assms(1) r])
qed

text \<open>
  C1, as the code has it. When every status answer is a non-terminal one, the loop
  sleeps 2 time units between an answer and the next poll and raises TimeoutError at
  the first answer that arrives more than 120 time units after the loop started; that
  poll is the last one, and at most 62 polls are issued. The deadline is looked at only
  when an answer has arrived, so a poll can be issued after it, but no later than 122
  time units after the start. Nothing is written, and the caller of the route gets
  UNKNOWN_ERROR with HTTP status 500.
\<close>

theorem poll_loop_deadline:
  assumes "\<forall>k. pending (poll_reply e k)"
  shows "\<exists>m\<le>61.
     poll_loop e (now w) 0 w =
       (Inl (TimeoutError ''Timed out waiting for completed job.''),
        w\<lparr>now := done_time e (now w) m, trace := trace w @ polls e (now w) (Suc m)\<rparr>)
     \<and> done_time e (now w) m - now w > 120
     \<and> (\<forall>k<m. done_time e (now w) k - now w \<le> 120)
     \<and> (\<forall>k<m. issue_time e (now w) (Suc k) = done_time e (now w) k + 2)
     \<and> (\<forall>k\<le>m. issue_time e (now w) k \<le> now w + 122)
     \<and> (check_api_configuration (cfg e) = [] \<and> accepted (post_reply e) \<longrightarrow>
          (\<forall>rid p wd h. fst (generate_image e rid p wd h w) = (unknown_error rid, 500)
             \<and> files (snd (generate_image e rid p wd h w)) = files w))"
proof -
  from assms obtain m where m: "m \<le> 61" "reaches e (now w) m"
    "done_time e (now w) m - now w > 120"
    by (rule never_done_deadline)
  have p: "pending (poll_reply e m)"
    using assms by simp
  have 1: "poll_loop e (now w) 0 w =
       (Inl (TimeoutError ''Timed out waiting for completed job.''),
        w\<lparr>now := done_time e (now w) m, trace := trace w @ polls e (now w) (Suc m)\<rparr>)"
    using poll_loop_timeout [OF m(2) p m(3)] by (simp add: answered_at_poll)
  have 2: "\<forall>k<m. done_time e (now w) k - now w \<le> 120"
    using m(2) by (simp add: reaches_def)
  have 3: "\<forall>k<m. issue_time e (now w) (Suc k) = done_time e (now w) k + 2"
    by (simp add: done_time_def)
  have 4: "\<forall>k\<le>m. issue_time e (now w) k \<le> now w + 122"
    using issue_time_bound [OF m(2)] by blast
  have 5: "fst (generate_image e rid p wd h w) = (unknown_error rid, 500)
      \<and> files (snd (generate_image e rid p wd h w)) = files w"
    if c: "check_api_configuration (cfg e) = []" and a: "accepted (post_reply e)"
    for rid p wd h
  proof -
    have r: "reaches e (now (posted p wd h w)) m"
      and d: "done_time e (now (posted p wd h w)) m - now (posted p wd h w) > 120"
      using m by simp_all
    have "poll_loop e (now w) 0 (posted p wd h w) =
       (Inl (TimeoutError ''Timed out waiting for completed job.''),
        answered e m (at_poll e (now w) m (posted p wd h w)))"
      using poll_loop_timeout [OF r p d] by simp
    from generate_image_raised [OF c run_generation_loop_error [OF a this]]
    show ?thesis by simp
  qed
  from m(1) m(3) 1 2 3 4 5 show ?thesis by blast
qed

lemma never_done_env_pending: "\<forall>k. pending (poll_reply never_done_env k)"
  by (simp add: never_done_env_def sample_env_def in_progress_def raise_for_status_def
        dict_get_def dict_get_default_def)

theorem poll_loop_deadline_witness:
  "(\<forall>k. pending (poll_reply never_done_env k))
   \<and> fst (poll_loop never_done_env (now world0) 0 world0)
       = Inl (TimeoutError ''Timed out waiting for completed job.'')
   \<and> fst (generate_image never_done_env rid0 (JStr ''x'') (JInt 256) (JInt 256) world0)
       = (unknown_error rid0, 500)"
proof -
  have c: "check_api_configuration (cfg never_done_env) = []
      \<and> accepted (post_reply never_done_env)"
    by (simp add: never_done_env_def sample_env_def cfg_ok_def job_created_def
          check_api_configuration_def unconfigured_def raise_for_status_def
          dict_get_def dict_get_default_def)
  from poll_loop_deadline [OF never_done_env_pending, of world0] c
  obtain m where "poll_loop never_done_env (now world0) 0 world0 =
       (Inl (TimeoutError ''Timed out waiting for completed job.''),
        world0\<lparr>now := done_time never_done_env (now world0) m,
          trace := trace world0 @ polls never_done_env (now world0) (Suc m)\<rparr>)"
    and "\<forall>rid p wd h. fst (generate_image never_done_env rid p wd h world0)
           = (unknown_error rid, 500)
         \<and> files (snd (generate_image never_done_env rid p wd h world0)) = files world0"
    by blast
  then show ?thesis
    using never_done_env_pending by simp
qed

text \<open>
  With answers that arrive at once, the polls are issued at 0, 2, ..., 120 and, since
  120 is not later than the deadline, once more at 122.
\<close>

theorem poll_after_deadline_counterexample:
  "fst (poll_loop never_done_env (now world0) 0 world0)
     = Inl (TimeoutError ''Timed out waiting for completed job.'')
   \<and> length (trace (snd (poll_loop never_done_env (now world0) 0 world0))) = 62
   \<and> last (trace (snd (poll_loop never_done_env (now world0) 0 world0))) = Poll 122 122
   \<and> (122 :: int) - now world0 > 120"
  by code_simp

section \<open>Extraction of the output\<close>

lemma sample_env_configured: "check_api_configuration (cfg (sample_env p q i)) = []"
  by (simp add: sample_env_def cfg_ok_def check_api_configuration_def unconfigured_def)

lemma accepted_job_created: "accepted job_created"
  by (simp add: job_created_def raise_for_status_def dict_get_def dict_get_default_def)

lemma pending_in_progress: "pending in_progress"
  by (simp add: in_progress_def raise_for_status_def dict_get_def dict_get_default_def)

lemma third_poll_env_configured:
  "check_api_configuration (cfg (third_poll_env out i)) = []"
  by (simp add: third_poll_env_def sample_env_configured)

lemma third_poll_env_accepted: "accepted (post_reply (third_poll_env out i))"
  by (simp add: third_poll_env_def sample_env_def accepted_job_created)

lemma third_poll_env_completes:
  "completes_at (third_poll_env out i) (now world0) 2
     [(''status'', JStr ''COMPLETED''), (''output'', out)]"
  by (simp add: third_poll_env_def sample_env_def completes_at_def reaches_def completed_def
        raise_for_status_def dict_get_def dict_get_default_def pending_in_progress
        done_time_def world0_def less_Suc_eq numeral_2_eq_2)

lemma third_poll_env_image: "image_reply (third_poll_env out i) url = i"
  by (simp add: third_poll_env_def sample_env_def)

lemma parse_output_cases:
  "dict_get result ''output'' = JObj d \<Longrightarrow> truthy (dict_get d ''image_url'') \<Longrightarrow>
     parse_output result = Inr (dict_get d ''image_url'')"
  "dict_get result ''output'' = JObj d \<Longrightarrow> \<not> truthy (dict_get d ''image_url'') \<Longrightarrow>
     truthy (dict_get d ''image'') \<Longrightarrow> parse_output result = Inr (dict_get d ''image'')"
  "dict_get result ''output'' = JStr s \<Longrightarrow> s \<noteq> [] \<Longrightarrow> parse_output result = Inr (JStr s)"
  "dict_get result ''output'' = JList (JStr s # xs) \<Longrightarrow> s \<noteq> [] \<Longrightarrow>
     parse_output result = Inr (JStr s)"
  by (simp_all add: parse_output_def py_or_def)

lemma parse_output_none:
  assumes "\<not> (\<exists>d. dict_get result ''output'' = JObj d
              \<and> (truthy (dict_get d ''image_url'') \<or> truthy (dict_get d ''image'')))"
    and "\<not> (\<exists>s. s \<noteq> [] \<and> (dict_get result ''output'' = JStr s
              \<or> (\<exists>xs. dict_get result ''output'' = JList (JStr s # xs))))"
  shows "parse_output result = Inl (ValueError ''image_url not found in output.'')"
  using assms
  by (auto simp: parse_output_def py_or_def split: json.splits list.splits)

text \<open>
  C2. When a poll answers COMPLETED, the loop hands the answer's dict on, and the value
  taken from its \<^verbatim>\<open>output\<close> is: for a dict, the field \<^verbatim>\<open>image_url\<close> if it is
  truthy, else the field \<^verbatim>\<open>image\<close>; for a string, the string; for a list whose first
  element is a string, that string. When no rule yields a truthy value (in particular
  when the output has none of these shapes) ValueError is raised, the caller gets
  UNKNOWN_ERROR with HTTP status 500, and nothing is written.
\<close>

theorem completed_output_extraction:
  assumes "check_api_configuration (cfg e) = []" and "accepted (post_reply e)"
    and "completes_at e (now w) n result"
  shows
   "run_generation e rid p wd h w =
      deliver e rid result (answered e n (at_poll e (now w) n (posted p wd h w)))
    \<and> (\<forall>d. dict_get result ''output'' = JObj d \<and> truthy (dict_get d ''image_url'') \<longrightarrow>
          parse_output result = Inr (dict_get d ''image_url''))
    \<and> (\<forall>d. dict_get result ''output'' = JObj d \<and> \<not> truthy (dict_get d ''image_url'')
            \<and> truthy (dict_get d ''image'') \<longrightarrow>
          parse_output result = Inr (dict_get d ''image''))
    \<and> (\<forall>s. dict_get result ''output'' = JStr s \<and> s \<noteq> [] \<longrightarrow>
          parse_output result = Inr (JStr s))
    \<and> (\<forall>s xs. dict_get result ''output'' = JList (JStr s # xs) \<and> s \<noteq> [] \<longrightarrow>
          parse_output result = Inr (JStr s))
    \<and> (\<not> (\<exists>d. dict_get result ''output'' = JObj d
              \<and> (truthy (dict_get d ''image_url'') \<or> truthy (dict_get d ''image'')))
        \<and> \<not> (\<exists>s. s \<noteq> [] \<and> (dict_get result ''output'' = JStr s
              \<or> (\<exists>xs. dict_get result ''output'' = JList (JStr s # xs)))) \<longrightarrow>
          parse_output result = Inl (ValueError ''image_url not found in output.'')
          \<and> fst (generate_image e rid p wd h w) = (unknown_error rid, 500)
          \<and> files (snd (generate_image e rid p wd h w)) = files w)"
proof -
  have run: "run_generation e rid p wd h w =
      deliver e rid result (answered e n (at_poll e (now w) n (posted p wd h w)))"
    by (rule run_generation_completed [OF assms(2,3)])
  have none: "parse_output result = Inl (ValueError ''image_url not found in output.'')
          \<and> fst (generate_image e rid p wd h w) = (unknown_error rid, 500)
          \<and> files (snd (generate_image e rid p wd h w)) = files w"
    if a: "\<not> (\<exists>d. dict_get result ''output'' = JObj d
              \<and> (truthy (dict_get d ''image_url'') \<or> truthy (dict_get d ''image'')))"
      and b: "\<not> (\<exists>s. s \<noteq> [] \<and> (dict_get result ''output'' = JStr s
              \<or> (\<exists>xs. dict_get result ''output'' = JList (JStr s # xs))))"
  proof -
    have v: "parse_output result = Inl (ValueError ''image_url not found in output.'')"
      by (rule parse_output_none [OF a b])
    have "run_generation e rid p wd h w =
        (Inl (ValueError ''image_url not found in output.''),
         answered e n (at_poll e (now w) n (posted p wd h w)))"
      by (simp add: run deliver_parse_error [OF v])
    from generate_image_raised [OF assms(1) this] v show ?thesis by simp
  qed
  show ?thesis
    using run none parse_output_cases [of result] by blast
qed

theorem completed_output_extraction_witness:
  "parse_output [(''status'', JStr ''COMPLETED''),
      (''output'', JObj [(''image'', JStr ''http://cdn.example/y.png'')])]
     = Inr (JStr ''http://cdn.example/y.png'')
   \<and> fst (generate_image (third_poll_env (JInt 7) NoImageResponse)
            rid0 (JStr ''x'') (JInt 256) (JInt 256) world0)
     = (unknown_error rid0, 500)"
proof -
  let ?d = "[(''image'', JStr ''http://cdn.example/y.png'')]"
  have o: "dict_get [(''status'', JStr ''COMPLETED''), (''output'', JObj ?d)] ''output''
             = JObj ?d
      \<and> \<not> truthy (dict_get ?d ''image_url'') \<and> truthy (dict_get ?d ''image'')"
    by (simp add: dict_get_def dict_get_default_def)
  have v: "dict_get ?d ''image'' = JStr ''http://cdn.example/y.png''"
    by (simp add: dict_get_def dict_get_default_def)
  have "parse_output [(''status'', JStr ''COMPLETED''), (''output'', JObj ?d)]
          = Inr (dict_get ?d ''image'')"
    using completed_output_extraction [OF third_poll_env_configured third_poll_env_accepted
        third_poll_env_completes, where out1 = "JObj ?d"] o
    by blast
  then have 1: "parse_output [(''status'', JStr ''COMPLETED''), (''output'', JObj ?d)]
          = Inr (JStr ''http://cdn.example/y.png'')"
    by (simp only: v)
  have i: "dict_get [(''status'', JStr ''COMPLETED''), (''output'', JInt 7)] ''output'' = JInt 7"
    by (simp add: dict_get_def dict_get_default_def)
  have 2: "fst (generate_image (third_poll_env (JInt 7) NoImageResponse)
            rid0 (JStr ''x'') (JInt 256) (JInt 256) world0) = (unknown_error rid0, 500)"
    using completed_output_extraction [OF third_poll_env_configured third_poll_env_accepted
        third_poll_env_completes, where out1 = "JInt 7" and i1 = NoImageResponse
        and rid = rid0 and p = "JStr ''x''" and wd = "JInt 256" and h = "JInt 256"]
    by (simp add: i)
  from 1 2 show ?thesis by blast
qed

section \<open>Decoding the output\<close>

lemma write_chunks_concat: "write_chunks chunks f = f @ concat chunks"
  by (induction chunks arbitrary: f) simp_all

lemma save_image_data:
  assumes "startswith s ''data:image''"
  shows "save_image e rid (JStr s) w =
     (case b64decode (split_comma_last s) of
        Inl x \<Rightarrow> (Inl x, w)
      | Inr image_data \<Rightarrow> (Inr (), w\<lparr>files := (files w)(save_path_of rid \<mapsto> image_data)\<rparr>))"
  using assms by (simp add: save_image_def Let_def)

lemma save_image_http:
  assumes "\<not> startswith s ''data:image''" and "startswith s ''http''"
  shows "save_image e rid (JStr s) w =
     (case image_reply e s of
        NoImageResponse \<Rightarrow> (Inl (RequestException None), w\<lparr>trace := trace w @ [Fetch s]\<rparr>)
      | ImageResponse sc chunks broken \<Rightarrow>
          (case raise_for_status sc of
             Some x \<Rightarrow> (Inl x, w\<lparr>trace := trace w @ [Fetch s]\<rparr>)
           | None \<Rightarrow>
               (if broken then Inl (RequestException None) else Inr (),
                w\<lparr>trace := trace w @ [Fetch s],
                  files := (files w)(save_path_of rid \<mapsto> concat chunks)\<rparr>)))"
  using assms
  by (simp add: save_image_def Let_def write_chunks_concat
        split: image_reply.split option.split)

lemma save_image_other:
  assumes "\<not> startswith s ''data:image''" and "\<not> startswith s ''http''"
  shows "save_image e rid (JStr s) w = (Inl (ValueError ''Unrecognized image_url format!''), w)"
  using assms by (simp add: save_image_def Let_def)

lemma data_uri_example:
  "fst (generate_image (third_poll_env (JStr ''data:image/png;base64,AAAA'') NoImageResponse)
          rid0 (JStr ''x'') (JInt 256) (JInt 256) world0)
     = (JObj [(''status'', JStr ''success''),
              (''image_url'', JStr (''/generated_images/'' @ rid0 @ ''.png'')),
              (''blob_url'', JStr (blob_url_of ''images'' (rid0 @ ''.png'')))], 200)
   \<and> files (snd (generate_image
            (third_poll_env (JStr ''data:image/png;base64,AAAA'') NoImageResponse)
            rid0 (JStr ''x'') (JInt 256) (JInt 256) world0)) (save_path_of rid0)
     = Some [0, 0, 0]
   \<and> trace (snd (generate_image
            (third_poll_env (JStr ''data:image/png;base64,AAAA'') NoImageResponse)
            rid0 (JStr ''x'') (JInt 256) (JInt 256) world0))
     = [Post (JObj [(''input'', JObj [(''prompt'', JStr ''x''), (''width'', JInt 256),
                                      (''height'', JInt 256)])]),
        Poll 0 0, Poll 2 2, Poll 4 4]"
  by code_simp

subsection \<open>Decoding inverts the encoding\<close>

lemma and_mask_byte:
  "(a :: byte) AND 3 = take_bit 2 a" "(a :: byte) AND 15 = take_bit 4 a"
  "(a :: byte) AND 63 = take_bit 6 a"
  by (simp_all add: take_bit_eq_mask mask_eq_exp_minus_1)

lemma Suc_Suc_diff_2: "2 \<le> n \<Longrightarrow> Suc (Suc (n - 2)) = n"
  by simp

lemma first_byte:
  "push_bit 2 (drop_bit 2 a) OR drop_bit 4 (push_bit 4 (a AND 0x03) OR drop_bit 4 b) = (a::byte)"
  unfolding and_mask_byte
  apply (rule bit_word_eqI)
  subgoal for n
    by (cases "2 \<le> n"; cases "4 \<le> n"; cases "6 \<le> n") (auto simp: bit_simps Suc_Suc_diff_2 not_le)
  done

lemma first_byte_alone:
  "push_bit 2 (drop_bit 2 a) OR drop_bit 4 (push_bit 4 (a AND 0x03)) = (a::byte)"
  unfolding and_mask_byte
  apply (rule bit_word_eqI)
  subgoal for n
    by (cases "2 \<le> n"; cases "4 \<le> n"; cases "6 \<le> n") (auto simp: bit_simps Suc_Suc_diff_2 not_le)
  done

lemma second_byte:
  "push_bit 4 ((push_bit 4 (a AND 0x03) OR drop_bit 4 b) AND 0x0f)
     OR drop_bit 2 (push_bit 2 (b AND 0x0f) OR drop_bit 6 c) = (b::byte)"
  unfolding and_mask_byte
  apply (rule bit_word_eqI)
  subgoal for n
    by (cases "2 \<le> n"; cases "4 \<le> n"; cases "6 \<le> n") (auto simp: bit_simps Suc_Suc_diff_2 not_le)
  done

lemma second_byte_alone:
  "push_bit 4 ((push_bit 4 (a AND 0x03) OR drop_bit 4 b) AND 0x0f)
     OR drop_bit 2 (push_bit 2 (b AND 0x0f)) = (b::byte)"
  unfolding and_mask_byte
  apply (rule bit_word_eqI)
  subgoal for n
    by (cases "2 \<le> n"; cases "4 \<le> n"; cases "6 \<le> n") (auto simp: bit_simps Suc_Suc_diff_2 not_le)
  done

lemma third_byte:
  "push_bit 6 ((push_bit 2 (b AND 0x0f) OR drop_bit 6 c) AND 0x03) OR (c AND 0x3f) = (c::byte)"
  unfolding and_mask_byte
  apply (rule bit_word_eqI)
  subgoal for n
    by (cases "2 \<le> n"; cases "4 \<le> n"; cases "6 \<le> n") (auto simp: bit_simps Suc_Suc_diff_2 not_le)
  done

lemma sextet_less: "take_bit 6 v = v \<Longrightarrow> unat (v::byte) < 64"
proof -
  assume a: "take_bit 6 v = v"
  have "take_bit 6 (unat v) < 2 ^ 6"
    by (rule take_bit_nat_less_exp)
  then have "unat (take_bit 6 v) < 64"
    by (simp add: unsigned_take_bit_eq)
  with a show ?thesis by simp
qed

lemma sextets:
  "unat (drop_bit 2 (a::byte)) < 64"
  "unat (push_bit 4 ((a::byte) AND 0x03)) < 64"
  "unat (push_bit 4 ((a::byte) AND 0x03) OR drop_bit 4 b) < 64"
  "unat (push_bit 2 ((b::byte) AND 0x0f)) < 64"
  "unat (push_bit 2 ((b::byte) AND 0x0f) OR drop_bit 6 c) < 64"
  "unat ((c::byte) AND 0x3f) < 64"
  unfolding and_mask_byte
  by (rule sextet_less, rule bit_word_eqI, auto simp: bit_simps dest: bit_imp_le_length)+

lemma of_char_b2a:
  assumes "unat v < 64"
  shows "(of_char (b2a v) :: nat) =
     (if unat v < 26 then unat v + 65
      else if unat v < 52 then unat v + 71
      else if unat v < 62 then unat v - 4
      else if unat v = 62 then 43 else 47)"
  using assms by (auto simp: b2a_def Let_def)

lemma table_b2a:
  assumes "unat v < 64"
  shows "table_a2b_base64 (b2a v) = Some v"
proof -
  have v: "of_nat (unat v) = v" by simp
  consider "unat v < 26" | "26 \<le> unat v" "unat v < 52" | "52 \<le> unat v" "unat v < 62"
    | "unat v = 62" | "unat v = 63"
    using assms by linarith
  then show ?thesis
  proof cases
    case 1
    then show ?thesis by (simp add: of_char_b2a [OF assms] table_a2b_base64_def Let_def)
  next
    case 2
    then show ?thesis by (simp add: of_char_b2a [OF assms] table_a2b_base64_def Let_def)
  next
    case 3
    then have c: "(of_char (b2a v) :: nat) = unat v - 4"
      by (simp add: of_char_b2a [OF assms])
    from 3 have r: "48 \<le> unat v - 4" "unat v - 4 \<le> 57" "\<not> 65 \<le> unat v - 4"
      "\<not> 97 \<le> unat v - 4" "unat v - 4 + 4 = unat v"
      by simp_all
    show ?thesis
      unfolding table_a2b_base64_def Let_def c using r by simp
  next
    case 4
    then have "v = 62" by (metis v of_nat_numeral)
    then show ?thesis by (simp add: b2a_def table_a2b_base64_def Let_def)
  next
    case 5
    then have "v = 63" by (metis v of_nat_numeral)
    then show ?thesis by (simp add: b2a_def table_a2b_base64_def Let_def)
  qed
qed

lemma b2a_ascii: "unat v < 64 \<Longrightarrow> (of_char (b2a v) :: nat) < 128"
  by (auto simp: of_char_b2a)

lemma b2a_not_pad:
  assumes "unat v < 64"
  shows "b2a v \<noteq> CHR ''=''"
proof
  assume "b2a v = CHR ''=''"
  then have "(of_char (b2a v) :: nat) = 61" by simp
  then show False using assms by (auto simp: of_char_b2a split: if_splits)
qed

lemma a2b_base64_data:
  assumes "unat v < 64"
  shows "a2b_base64 (b2a v # cs) 0 leftchar pads out = a2b_base64 cs 1 v 0 out"
    "a2b_base64 (b2a v # cs) 1 leftchar pads out =
       a2b_base64 cs 2 (v AND 0x0f) 0 (out @ [push_bit 2 leftchar OR drop_bit 4 v])"
    "a2b_base64 (b2a v # cs) 2 leftchar pads out =
       a2b_base64 cs 3 (v AND 0x03) 0 (out @ [push_bit 4 leftchar OR drop_bit 2 v])"
    "a2b_base64 (b2a v # cs) 3 leftchar pads out =
       a2b_base64 cs 0 0 0 (out @ [push_bit 6 leftchar OR v])"
  by (simp_all add: table_b2a [OF assms] b2a_not_pad [OF assms])

lemma b64encode_sextets:
  obtains v1 v2 v3 v4 where
    "b64encode (a # b # c # bs) = [b2a v1, b2a v2, b2a v3, b2a v4] @ b64encode bs"
    "unat v1 < 64" "unat v2 < 64" "unat v3 < 64" "unat v4 < 64"
    "push_bit 2 v1 OR drop_bit 4 v2 = a"
    "push_bit 4 (v2 AND 0x0f) OR drop_bit 2 v3 = b"
    "push_bit 6 (v3 AND 0x03) OR v4 = c"
  using that [of "drop_bit 2 a" "push_bit 4 (a AND 0x03) OR drop_bit 4 b"
      "push_bit 2 (b AND 0x0f) OR drop_bit 6 c" "c AND 0x3f"]
    sextets(1) [of a] sextets(3) [of a b] sextets(5) [of b c] sextets(6) [of c]
    first_byte [of a b] second_byte [of a b c] third_byte [of b c]
  by (simp only: b64encode.simps)

lemma b64encode_sextets_two:
  obtains v1 v2 v3 where
    "b64encode [a, b] = [b2a v1, b2a v2, b2a v3, CHR ''='']"
    "unat v1 < 64" "unat v2 < 64" "unat v3 < 64"
    "push_bit 2 v1 OR drop_bit 4 v2 = a"
    "push_bit 4 (v2 AND 0x0f) OR drop_bit 2 v3 = b"
  using that [of "drop_bit 2 a" "push_bit 4 (a AND 0x03) OR drop_bit 4 b"
      "push_bit 2 (b AND 0x0f)"]
    sextets(1) [of a] sextets(3) [of a b] sextets(4) [of b]
    first_byte [of a b] second_byte_alone [of a b]
  by (simp only: b64encode.simps)

lemma b64encode_sextets_one:
  obtains v1 v2 where
    "b64encode [a] = [b2a v1, b2a v2, CHR ''='', CHR ''='']"
    "unat v1 < 64" "unat v2 < 64"
    "push_bit 2 v1 OR drop_bit 4 v2 = a"
  using that [of "drop_bit 2 a" "push_bit 4 (a AND 0x03)"]
    sextets(1) [of a] sextets(2) [of a] first_byte_alone [of a]
  by (simp only: b64encode.simps)

lemma a2b_base64_b64encode: "a2b_base64 (b64encode bs) 0 0 0 out = Inr (out @ bs)"
proof (induction bs arbitrary: out rule: b64encode.induct)
  case 1
  show ?case by simp
next
  case (2 a)
  obtain v1 v2 where e: "b64encode [a] = [b2a v1, b2a v2, CHR ''='', CHR ''='']"
    and s: "unat v1 < 64" "unat v2 < 64"
    and b: "push_bit 2 v1 OR drop_bit 4 v2 = a"
    by (rule b64encode_sextets_one)
  have "a2b_base64 (b64encode [a]) 0 0 0 out
          = a2b_base64 ''=='' 2 (v2 AND 0x0f) 0 (out @ [a])"
    unfolding e by (simp only: a2b_base64_data s b append.simps append_assoc)
  then show ?case by simp
next
  case (3 a b)
  obtain v1 v2 v3 where e: "b64encode [a, b] = [b2a v1, b2a v2, b2a v3, CHR ''='']"
    and s: "unat v1 < 64" "unat v2 < 64" "unat v3 < 64"
    and b: "push_bit 2 v1 OR drop_bit 4 v2 = a"
      "push_bit 4 (v2 AND 0x0f) OR drop_bit 2 v3 = b"
    by (rule b64encode_sextets_two)
  have "a2b_base64 (b64encode [a, b]) 0 0 0 out
          = a2b_base64 ''='' 3 (v3 AND 0x03) 0 (out @ [a, b])"
    unfolding e by (simp only: a2b_base64_data s b append.simps append_assoc)
  then show ?case by simp
next
  case (4 a b c bs)
  obtain v1 v2 v3 v4 where
    e: "b64encode (a # b # c # bs) = [b2a v1, b2a v2, b2a v3, b2a v4] @ b64encode bs"
    and s: "unat v1 < 64" "unat v2 < 64" "unat v3 < 64" "unat v4 < 64"
    and b: "push_bit 2 v1 OR drop_bit 4 v2 = a"
      "push_bit 4 (v2 AND 0x0f) OR drop_bit 2 v3 = b"
      "push_bit 6 (v3 AND 0x03) OR v4 = c"
    by (rule b64encode_sextets)
  have "a2b_base64 (b64encode (a # b # c # bs)) 0 0 0 out
          = a2b_base64 (b64encode bs) 0 0 0 (out @ [a, b, c])"
    unfolding e by (simp only: a2b_base64_data s b append.simps append_assoc)
  then show ?case by (simp add: "4.IH")
qed

lemma b64encode_ascii: "\<forall>c \<in> set (b64encode bs). (of_char c :: nat) < 128"
proof (induction bs rule: b64encode.induct)
  case 1
  show ?case by simp
next
  case (2 a)
  obtain v1 v2 where e: "b64encode [a] = [b2a v1, b2a v2, CHR ''='', CHR ''='']"
    and s: "unat v1 < 64" "unat v2 < 64"
    by (rule b64encode_sextets_one)
  show ?case unfolding e by (simp add: b2a_ascii s)
next
  case (3 a b)
  obtain v1 v2 v3 where e: "b64encode [a, b] = [b2a v1, b2a v2, b2a v3, CHR ''='']"
    and s: "unat v1 < 64" "unat v2 < 64" "unat v3 < 64"
    by (rule b64encode_sextets_two)
  show ?case unfolding e by (simp add: b2a_ascii s)
next
  case (4 a b c bs)
  obtain v1 v2 v3 v4 where
    e: "b64encode (a # b # c # bs) = [b2a v1, b2a v2, b2a v3, b2a v4] @ b64encode bs"
    and s: "unat v1 < 64" "unat v2 < 64" "unat v3 < 64" "unat v4 < 64"
    by (rule b64encode_sextets)
  show ?case unfolding e using "4.IH" by (simp add: b2a_ascii s)
qed

lemma b64decode_b64encode: "b64decode (b64encode bs) = Inr bs"
proof -
  have "\<not> (\<exists>c \<in> set (b64encode bs). (of_char c :: nat) \<ge> 128)"
    using b64encode_ascii [of bs] by (auto simp: not_le)
  then show ?thesis
    by (simp add: b64decode_def a2b_base64_b64encode)
qed

subsection \<open>From the output string to the file\<close>

lemma save_image_b64encode:
  assumes "startswith s ''data:image''" and "split_comma_last s = b64encode bs"
  shows "save_image e rid (JStr s) w
           = (Inr (), w\<lparr>files := (files w)(save_path_of rid \<mapsto> bs)\<rparr>)"
  by (simp add: save_image_data [OF assms(1)] assms(2) b64decode_b64encode)

lemma png_uri_example:
  "b64decode ''QUJD'' = Inr [65, 66, 67]
   \<and> b64decode ''iVBORw=='' = Inr [137, 80, 78, 71]
   \<and> b64encode [137, 80, 78, 71] = ''iVBORw==''
   \<and> fst (generate_image (third_poll_env (JStr ''data:image/png;base64,iVBORw=='') NoImageResponse)
          rid0 (JStr ''x'') (JInt 256) (JInt 256) world0)
     = (JObj [(''status'', JStr ''success''),
              (''image_url'', JStr (''/generated_images/'' @ rid0 @ ''.png'')),
              (''blob_url'', JStr (blob_url_of ''images'' (rid0 @ ''.png'')))], 200)
   \<and> files (snd (generate_image
            (third_poll_env (JStr ''data:image/png;base64,iVBORw=='') NoImageResponse)
            rid0 (JStr ''x'') (JInt 256) (JInt 256) world0)) (save_path_of rid0)
     = Some [137, 80, 78, 71]"
  by code_simp

text \<open>
  C4. An output string that starts with \<^verbatim>\<open>data:image\<close> is decoded from base64
  (the part after the first comma) and written, with no request issued. The decoder
  inverts the base64 encoding: when the payload is the encoding of the bytes \<open>bs\<close>,
  the file holds exactly \<open>bs\<close>; so \<^verbatim>\<open>QUJD\<close> gives the bytes 65, 66, 67 and
  \<^verbatim>\<open>iVBORw==\<close> gives 137, 80, 78, 71. Otherwise a
  string that starts with \<^verbatim>\<open>http\<close> is fetched with exactly one request and, when
  the answer passes and the stream ends, its chunks are written in order; any other
  string raises ValueError (the code's Malformed), which the caller sees as
  UNKNOWN_ERROR with HTTP status 500. For two \<^verbatim>\<open>IN_PROGRESS\<close> answers followed by
  COMPLETED with output \<^verbatim>\<open>data:image/png;base64,AAAA\<close> the route answers success and
  the file holds exactly the 3 decoded bytes, which are 0, 0, 0; with the payload
  \<^verbatim>\<open>iVBORw==\<close> it holds the 4 bytes 137, 80, 78, 71.
\<close>

theorem output_decoding:
  "(startswith s ''data:image'' \<longrightarrow>
      trace (snd (save_image e rid (JStr s) w)) = trace w
      \<and> (\<forall>image_data. b64decode (split_comma_last s) = Inr image_data \<longrightarrow>
            save_image e rid (JStr s) w
              = (Inr (), w\<lparr>files := (files w)(save_path_of rid \<mapsto> image_data)\<rparr>))
      \<and> (\<forall>x. b64decode (split_comma_last s) = Inl x \<longrightarrow>
            save_image e rid (JStr s) w = (Inl x, w))
      \<and> (\<forall>bs. split_comma_last s = b64encode bs \<longrightarrow>
            save_image e rid (JStr s) w
              = (Inr (), w\<lparr>files := (files w)(save_path_of rid \<mapsto> bs)\<rparr>)))
   \<and> b64decode (b64encode image_bytes) = Inr image_bytes
   \<and> b64decode ''QUJD'' = Inr [65, 66, 67]
   \<and> b64decode ''iVBORw=='' = Inr [137, 80, 78, 71]
   \<and> (\<not> startswith s ''data:image'' \<and> startswith s ''http'' \<longrightarrow>
      trace (snd (save_image e rid (JStr s) w)) = trace w @ [Fetch s]
      \<and> (\<forall>sc chunks. image_reply e s = ImageResponse sc chunks False
              \<and> raise_for_status sc = None \<longrightarrow>
            save_image e rid (JStr s) w
              = (Inr (), w\<lparr>trace := trace w @ [Fetch s],
                           files := (files w)(save_path_of rid \<mapsto> concat chunks)\<rparr>)))
   \<and> (\<not> startswith s ''data:image'' \<and> \<not> startswith s ''http'' \<longrightarrow>
      save_image e rid (JStr s) w = (Inl (ValueError ''Unrecognized image_url format!''), w)
      \<and> (check_api_configuration (cfg e) = [] \<and> accepted (post_reply e)
            \<and> completes_at e (now w) n result \<and> parse_output result = Inr (JStr s) \<longrightarrow>
          fst (generate_image e rid p wd h w) = (unknown_error rid, 500)
          \<and> files (snd (generate_image e rid p wd h w)) = files w))
   \<and> fst (generate_image (third_poll_env (JStr ''data:image/png;base64,AAAA'') NoImageResponse)
          rid0 (JStr ''x'') (JInt 256) (JInt 256) world0)
     = (JObj [(''status'', JStr ''success''),
              (''image_url'', JStr (''/generated_images/'' @ rid0 @ ''.png'')),
              (''blob_url'', JStr (blob_url_of ''images'' (rid0 @ ''.png'')))], 200)
   \<and> files (snd (generate_image
            (third_poll_env (JStr ''data:image/png;base64,AAAA'') NoImageResponse)
            rid0 (JStr ''x'') (JInt 256) (JInt 256) world0)) (save_path_of rid0)
     = Some [0, 0, 0]
   \<and> trace (snd (generate_image
            (third_poll_env (JStr ''data:image/png;base64,AAAA'') NoImageResponse)
            rid0 (JStr ''x'') (JInt 256) (JInt 256) world0))
     = [Post (JObj [(''input'', JObj [(''prompt'', JStr ''x''), (''width'', JInt 256),
                                      (''height'', JInt 256)])]),
        Poll 0 0, Poll 2 2, Poll 4 4]
   \<and> fst (generate_image (third_poll_env (JStr ''data:image/png;base64,iVBORw=='') NoImageResponse)
          rid0 (JStr ''x'') (JInt 256) (JInt 256) world0)
     = (JObj [(''status'', JStr ''success''),
              (''image_url'', JStr (''/generated_images/'' @ rid0 @ ''.png'')),
              (''blob_url'', JStr (blob_url_of ''images'' (rid0 @ ''.png'')))], 200)
   \<and> files (snd (generate_image
            (third_poll_env (JStr ''data:image/png;base64,iVBORw=='') NoImageResponse)
            rid0 (JStr ''x'') (JInt 256) (JInt 256) world0)) (save_path_of rid0)
     = Some [137, 80, 78, 71]"
proof -
  have data: "trace (snd (save_image e rid (JStr s) w)) = trace w
      \<and> (\<forall>image_data. b64decode (split_comma_last s) = Inr image_data \<longrightarrow>
            save_image e rid (JStr s) w
              = (Inr (), w\<lparr>files := (files w)(save_path_of rid \<mapsto> image_data)\<rparr>))
      \<and> (\<forall>x. b64decode (split_comma_last s) = Inl x \<longrightarrow>
            save_image e rid (JStr s) w = (Inl x, w))
      \<and> (\<forall>bs. split_comma_last s = b64encode bs \<longrightarrow>
            save_image e rid (JStr s) w
              = (Inr (), w\<lparr>files := (files w)(save_path_of rid \<mapsto> bs)\<rparr>))"
    if d: "startswith s ''data:image''"
  proof -
    have "trace (snd (save_image e rid (JStr s) w)) = trace w
      \<and> (\<forall>image_data. b64decode (split_comma_last s) = Inr image_data \<longrightarrow>
            save_image e rid (JStr s) w
              = (Inr (), w\<lparr>files := (files w)(save_path_of rid \<mapsto> image_data)\<rparr>))
      \<and> (\<forall>x. b64decode (split_comma_last s) = Inl x \<longrightarrow>
            save_image e rid (JStr s) w = (Inl x, w))"
      by (simp add: save_image_data [OF d] split: sum.split)
    then show ?thesis
      using save_image_b64encode [OF d] by blast
  qed
  have http: "trace (snd (save_image e rid (JStr s) w)) = trace w @ [Fetch s]
      \<and> (\<forall>sc chunks. image_reply e s = ImageResponse sc chunks False
              \<and> raise_for_status sc = None \<longrightarrow>
            save_image e rid (JStr s) w
              = (Inr (), w\<lparr>trace := trace w @ [Fetch s],
                           files := (files w)(save_path_of rid \<mapsto> concat chunks)\<rparr>))"
    if "\<not> startswith s ''data:image''" "startswith s ''http''"
    by (simp add: save_image_http [OF that] split: image_reply.split option.split)
  have other: "save_image e rid (JStr s) w
        = (Inl (ValueError ''Unrecognized image_url format!''), w)
      \<and> (check_api_configuration (cfg e) = [] \<and> accepted (post_reply e)
            \<and> completes_at e (now w) n result \<and> parse_output result = Inr (JStr s) \<longrightarrow>
          fst (generate_image e rid p wd h w) = (unknown_error rid, 500)
          \<and> files (snd (generate_image e rid p wd h w)) = files w)"
    if o: "\<not> startswith s ''data:image''" "\<not> startswith s ''http''"
  proof -
    have "fst (generate_image e rid p wd h w) = (unknown_error rid, 500)
          \<and> files (snd (generate_image e rid p wd h w)) = files w"
      if c: "check_api_configuration (cfg e) = []" and a: "accepted (post_reply e)"
        and d: "completes_at e (now w) n result" and q: "parse_output result = Inr (JStr s)"
    proof -
      have "run_generation e rid p wd h w =
         (Inl (ValueError ''Unrecognized image_url format!''),
          answered e n (at_poll e (now w) n (posted p wd h w)))"
        by (simp add: run_generation_completed [OF a d]
              deliver_save_error [OF q save_image_other [OF o]])
      from generate_image_raised [OF c this] show ?thesis by simp
    qed
    then show ?thesis
      using save_image_other [OF o] by blast
  qed
  note inv = b64decode_b64encode [of image_bytes]
  from data http other inv data_uri_example png_uri_example show ?thesis by blast
qed

theorem output_decoding_witness:
  "save_image never_done_env rid0 (JStr ''data:image/png;base64,AAAA'') world0
     = (Inr (), world0\<lparr>files := (files world0)(save_path_of rid0 \<mapsto> [0, 0, 0])\<rparr>)
   \<and> save_image never_done_env rid0 (JStr ''data:image/png;base64,iVBORw=='') world0
     = (Inr (), world0\<lparr>files := (files world0)(save_path_of rid0 \<mapsto> [137, 80, 78, 71])\<rparr>)
   \<and> save_image (third_poll_env JNull (ImageResponse 200 [[1, 2], [3]] False)) rid0
        (JStr ''http://cdn.example/x.png'') world0
     = (Inr (), world0\<lparr>trace := trace world0 @ [Fetch ''http://cdn.example/x.png''],
          files := (files world0)(save_path_of rid0 \<mapsto> [1, 2, 3])\<rparr>)
   \<and> save_image never_done_env rid0 (JStr ''ftp://cdn.example/x.png'') world0
     = (Inl (ValueError ''Unrecognized image_url format!''), world0)
   \<and> fst (generate_image (third_poll_env (JStr ''ftp://cdn.example/x.png'') NoImageResponse)
            rid0 (JStr ''x'') (JInt 256) (JInt 256) world0)
     = (unknown_error rid0, 500)"
proof -
  have d: "startswith ''data:image/png;base64,AAAA'' ''data:image''
      \<and> b64decode (split_comma_last ''data:image/png;base64,AAAA'') = Inr [0, 0, 0]"
    by (simp add: startswith_def split_comma_last_def b64decode_def table_a2b_base64_def)
  have 1: "save_image never_done_env rid0 (JStr ''data:image/png;base64,AAAA'') world0
     = (Inr (), world0\<lparr>files := (files world0)(save_path_of rid0 \<mapsto> [0, 0, 0])\<rparr>)"
    using output_decoding [where s = "''data:image/png;base64,AAAA''" and e = never_done_env
        and rid = rid0 and w = world0] d
    by blast
  have g: "startswith ''data:image/png;base64,iVBORw=='' ''data:image''
      \<and> split_comma_last ''data:image/png;base64,iVBORw=='' = b64encode [137, 80, 78, 71]"
    by code_simp
  have 5: "save_image never_done_env rid0 (JStr ''data:image/png;base64,iVBORw=='') world0
     = (Inr (), world0\<lparr>files := (files world0)(save_path_of rid0 \<mapsto> [137, 80, 78, 71])\<rparr>)"
    using output_decoding [where s = "''data:image/png;base64,iVBORw==''"
        and e = never_done_env and rid = rid0 and w = world0] g
    by blast
  have h: "\<not> startswith ''http://cdn.example/x.png'' ''data:image''
      \<and> startswith ''http://cdn.example/x.png'' ''http''
      \<and> image_reply (third_poll_env JNull (ImageResponse 200 [[1, 2], [3]] False))
            ''http://cdn.example/x.png'' = ImageResponse 200 [[1, 2], [3]] False
      \<and> raise_for_status 200 = None"
    by (simp add: startswith_def third_poll_env_image raise_for_status_def)
  have "save_image (third_poll_env JNull (ImageResponse 200 [[1, 2], [3]] False)) rid0
        (JStr ''http://cdn.example/x.png'') world0
     = (Inr (), world0\<lparr>trace := trace world0 @ [Fetch ''http://cdn.example/x.png''],
          files := (files world0)(save_path_of rid0 \<mapsto> concat [[1, 2], [3]])\<rparr>)"
    using output_decoding [where s = "''http://cdn.example/x.png''"
        and e = "third_poll_env JNull (ImageResponse 200 [[1, 2], [3]] False)"
        and rid = rid0 and w = world0] h
    by blast
  then have 2: "save_image (third_poll_env JNull (ImageResponse 200 [[1, 2], [3]] False)) rid0
        (JStr ''http://cdn.example/x.png'') world0
     = (Inr (), world0\<lparr>trace := trace world0 @ [Fetch ''http://cdn.example/x.png''],
          files := (files world0)(save_path_of rid0 \<mapsto> [1, 2, 3])\<rparr>)"
    by simp
  have o: "\<not> startswith ''ftp://cdn.example/x.png'' ''data:image''
      \<and> \<not> startswith ''ftp://cdn.example/x.png'' ''http''"
    by (simp add: startswith_def)
  have 3: "save_image never_done_env rid0 (JStr ''ftp://cdn.example/x.png'') world0
     = (Inl (ValueError ''Unrecognized image_url format!''), world0)"
    using output_decoding [where s = "''ftp://cdn.example/x.png''" and e = never_done_env
        and rid = rid0 and w = world0] o
    by blast
  have q: "parse_output [(''status'', JStr ''COMPLETED''),
              (''output'', JStr ''ftp://cdn.example/x.png'')]
             = Inr (JStr ''ftp://cdn.example/x.png'')"
    by (simp add: parse_output_def dict_get_def dict_get_default_def)
  have 4: "fst (generate_image (third_poll_env (JStr ''ftp://cdn.example/x.png'') NoImageResponse)
            rid0 (JStr ''x'') (JInt 256) (JInt 256) world0) = (unknown_error rid0, 500)"
    using output_decoding [where s = "''ftp://cdn.example/x.png''"
        and e = "third_poll_env (JStr ''ftp://cdn.example/x.png'') NoImageResponse"
        and rid = rid0 and w = world0 and n = 2 and p = "JStr ''x''" and wd = "JInt 256"
        and h = "JInt 256"
        and result = "[(''status'', JStr ''COMPLETED''),
              (''output'', JStr ''ftp://cdn.example/x.png'')]"]
      o q third_poll_env_configured third_poll_env_accepted third_poll_env_completes
    by blast
  from 1 5 2 3 4 show ?thesis by blast
qed

section \<open>Failed and cancelled jobs\<close>

lemma stopped_env_configured:
  "check_api_configuration (cfg (stopped_env st reason)) = []"
  by (simp add: stopped_env_def sample_env_configured)

lemma stopped_env_facts:
  "accepted (post_reply (stopped_env st reason))"
  "reaches (stopped_env st reason) t 0"
  "poll_reply (stopped_env st reason) 0
     = Response 200 (JObj [(''status'', JStr st), (''error'', JStr reason)])"
  "raise_for_status 200 = None"
  "dict_get [(''status'', JStr st), (''error'', JStr reason)] ''status'' = JStr st"
  "dict_get_default [(''status'', JStr st), (''error'', JStr reason)] ''error'' (JStr [])
     = JStr reason"
  by (simp_all add: stopped_env_def accepted_job_created reaches_def
        sample_env_def stopped_def raise_for_status_def dict_get_def dict_get_default_def)

text \<open>
  C5, as the code has it. When a poll answers FAILED or CANCELLED, the loop stops with a
  RuntimeError made of the status and of the answer's \<^verbatim>\<open>error\<close> value (the empty
  string when there is none), no further poll is issued and nothing is written. The
  caller of the route gets UNKNOWN_ERROR with HTTP status 500; that answer is the same
  for both statuses and for every reason.
\<close>

theorem failed_or_cancelled:
  assumes "check_api_configuration (cfg e) = []" and "accepted (post_reply e)"
    and "reaches e (now w) n"
    and "poll_reply e n = Response sc (JObj d)" and "raise_for_status sc = None"
    and "dict_get d ''status'' = JStr st" and "st = ''FAILED'' \<or> st = ''CANCELLED''"
  shows "run_generation e rid p wd h w =
           (Inl (RuntimeError (JStr st) (dict_get_default d ''error'' (JStr []))),
            answered e n (at_poll e (now w) n (posted p wd h w)))
         \<and> generate_image e rid p wd h w =
           ((unknown_error rid, 500), answered e n (at_poll e (now w) n (posted p wd h w)))
         \<and> files (snd (generate_image e rid p wd h w)) = files w"
proof -
  have run: "run_generation e rid p wd h w =
           (Inl (RuntimeError (JStr st) (dict_get_default d ''error'' (JStr []))),
            answered e n (at_poll e (now w) n (posted p wd h w)))"
    by (rule run_generation_poll_error [OF assms(2,3) poll_loop_stopped [OF assms(4-7)]])
  from generate_image_raised [OF assms(1) run] run show ?thesis by simp
qed

theorem failed_or_cancelled_witness:
  "fst (run_generation (stopped_env ''FAILED'' ''oom'') rid0 (JStr ''x'') (JInt 256) (JInt 256)
          world0)
     = Inl (RuntimeError (JStr ''FAILED'') (JStr ''oom''))
   \<and> fst (generate_image (stopped_env ''FAILED'' ''oom'') rid0 (JStr ''x'') (JInt 256)
            (JInt 256) world0)
     = (unknown_error rid0, 500)
   \<and> files (snd (generate_image (stopped_env ''FAILED'' ''oom'') rid0 (JStr ''x'') (JInt 256)
            (JInt 256) world0))
     = files world0"
proof -
  have s: "''FAILED'' = ''FAILED'' \<or> ''FAILED'' = ''CANCELLED''"
    by simp
  have c: "check_api_configuration (cfg (stopped_env ''FAILED'' ''oom'')) = []"
    by (rule stopped_env_configured)
  have a: "accepted (post_reply (stopped_env ''FAILED'' ''oom''))"
    by (rule stopped_env_facts)
  have r: "reaches (stopped_env ''FAILED'' ''oom'') (now world0) 0"
    by (rule stopped_env_facts)
  have q: "poll_reply (stopped_env ''FAILED'' ''oom'') 0
     = Response 200 (JObj [(''status'', JStr ''FAILED''), (''error'', JStr ''oom'')])"
    by (rule stopped_env_facts)
  have d: "dict_get [(''status'', JStr ''FAILED''), (''error'', JStr ''oom'')] ''status''
     = JStr ''FAILED''"
    by (rule stopped_env_facts)
  from failed_or_cancelled [OF c a r q stopped_env_facts(4) d s,
      where rid = rid0 and p = "JStr ''x''" and wd = "JInt 256" and h = "JInt 256"]
  show ?thesis
    by (simp add: stopped_env_facts(6))
qed

text \<open>
  The answers to FAILED with reason "oom" and to CANCELLED with reason "by user" are the
  same dict, in which neither the status nor the reason occurs.
\<close>

theorem failed_reason_dropped_counterexample:
  "fst (generate_image (stopped_env ''FAILED'' ''oom'') rid0 (JStr ''x'') (JInt 256)
          (JInt 256) world0)
     = (JObj [(''status'', JStr ''error''),
              (''message'', JStr ''An unexpected error occurred''),
              (''user_message'',
                 JStr ''Something went wrong. Please try again or contact support.''),
              (''error_code'', JStr ''UNKNOWN_ERROR''),
              (''request_id'', JStr rid0)], 500)
   \<and> fst (generate_image (stopped_env ''CANCELLED'' ''by user'') rid0 (JStr ''x'') (JInt 256)
          (JInt 256) world0)
     = fst (generate_image (stopped_env ''FAILED'' ''oom'') rid0 (JStr ''x'') (JInt 256)
          (JInt 256) world0)"
  by code_simp

section \<open>Transport failures\<close>

subsection \<open>Where an exception with a response comes from\<close>

lemma raise_for_status_Some:
  "raise_for_status sc = Some x \<Longrightarrow> x = RequestException (Some sc) \<and> 400 \<le> sc \<and> sc < 600"
  by (auto simp: raise_for_status_def split: if_splits)

lemma a2b_base64_error:
  "a2b_base64 s quad_pos leftchar pads out = Inl x \<Longrightarrow> \<exists>m. x = BinasciiError m"
  by (induction s quad_pos leftchar pads out rule: a2b_base64.induct)
     (auto split: if_splits option.splits)

lemma b64decode_error:
  "b64decode s = Inl x \<Longrightarrow> (\<exists>m. x = BinasciiError m) \<or> (\<exists>m. x = ValueError m)"
  by (auto simp: b64decode_def dest: a2b_base64_error split: if_splits)

lemma submit_job_response_origin:
  assumes "fst (submit_job e p wd h w) = Inl (RequestException (Some sc))"
  shows "400 \<le> sc \<and> sc < 600 \<and> status_code_of (post_reply e) = Some sc"
  using assms
  by (auto simp: submit_job_def Let_def status_code_of_def
        dest: raise_for_status_Some split: reply.splits option.splits json.splits if_splits)

lemma status_code_ofI:
  "poll_reply e k = Response sc body \<Longrightarrow> \<exists>k. status_code_of (poll_reply e k) = Some sc"
  "poll_reply e k = NonJson sc \<Longrightarrow> \<exists>k. status_code_of (poll_reply e k) = Some sc"
  by (rule exI [of _ k], simp add: status_code_of_def)+

lemma image_status_code_ofI:
  "image_reply e url = ImageResponse sc chunks broken \<Longrightarrow>
   \<exists>url. image_status_code_of (image_reply e url) = Some sc"
  by (rule exI [of _ url]) (simp add: image_status_code_of_def)

lemma poll_loop_response_origin:
  "fst (poll_loop e t0 n w) = Inl (RequestException (Some sc)) \<Longrightarrow>
   400 \<le> sc \<and> sc < 600 \<and> (\<exists>k. status_code_of (poll_reply e k) = Some sc)"
proof (induction e t0 n w rule: poll_loop.induct)
  case (1 e t_start n w)
  show ?case
  proof (cases "pending (poll_reply e n) \<and> \<not> now (answered e n w) - t_start > 120")
    case True
    then obtain sc' d where r: "poll_reply e n = Response sc' (JObj d)"
      "raise_for_status sc' = None"
      "dict_get d ''status'' \<noteq> JStr ''COMPLETED''"
      "dict_get d ''status'' \<noteq> JStr ''FAILED''"
      "dict_get d ''status'' \<noteq> JStr ''CANCELLED''"
      by (auto elim: pendingE)
    from True "1.prems"
    have "fst (poll_loop e t_start (Suc n) (slept (answered e n w)))
            = Inl (RequestException (Some sc))"
      by (simp add: poll_loop_pending)
    with "1.IH" [OF refl, of sc' "JObj d" d] r True show ?thesis
      by (simp add: answered_def slept_def)
  next
    case False
    from "1.prems" False show ?thesis
      unfolding poll_loop_unfold [of e t_start n w]
      by (auto dest!: raise_for_status_Some intro: status_code_ofI
            split: reply.splits option.splits json.splits if_splits)
  qed
qed

lemma save_image_response_origin:
  assumes "fst (save_image e rid u w) = Inl (RequestException (Some sc))"
  shows "400 \<le> sc \<and> sc < 600 \<and> (\<exists>url. image_status_code_of (image_reply e url) = Some sc)"
  using assms
  by (auto simp: save_image_def Let_def
        dest!: raise_for_status_Some b64decode_error intro: image_status_code_ofI
        split: json.splits if_splits sum.splits image_reply.splits option.splits)

lemma upload_blob_error:
  "fst (upload_blob e local_path blob_name w) = Inl x \<Longrightarrow> client_error (storage e) = Some x"
  by (auto simp: upload_blob_def Let_def split: option.splits)

lemma parse_output_error:
  "parse_output result = Inl x \<Longrightarrow> x = ValueError ''image_url not found in output.''"
  by (auto simp: parse_output_def Let_def split: if_splits)

lemma deliver_response_origin:
  assumes "fst (deliver e rid result w) = Inl (RequestException (Some sc))"
    and "\<forall>r. client_error (storage e) \<noteq> Some (RequestException r)"
  shows "400 \<le> sc \<and> sc < 600 \<and> (\<exists>url. image_status_code_of (image_reply e url) = Some sc)"
proof (cases "parse_output result")
  case (Inl x)
  with assms(1) parse_output_error [OF Inl] show ?thesis
    by (simp add: deliver_def)
next
  case (Inr image_url)
  obtain r1 w1 where s: "save_image e rid image_url w = (r1, w1)"
    by (cases "save_image e rid image_url w")
  show ?thesis
  proof (cases r1)
    case (Inl x)
    with assms(1) Inr s have "fst (save_image e rid image_url w) = Inl (RequestException (Some sc))"
      by (simp add: deliver_def)
    then show ?thesis by (rule save_image_response_origin)
  next
    case u: (Inr u)
    obtain r2 w2 where b: "upload_blob e (save_path_of rid) (rid @ ''.png'') w1 = (r2, w2)"
      by (cases "upload_blob e (save_path_of rid) (rid @ ''.png'') w1")
    from assms(1) Inr s u b have "r2 = Inl (RequestException (Some sc))"
      by (cases r2) (simp_all add: deliver_def)
    with b upload_blob_error [of e "save_path_of rid" "rid @ ''.png''" w1] assms(2)
    show ?thesis by simp
  qed
qed

lemma run_generation_response_origin:
  assumes "fst (run_generation e rid p wd h w) = Inl (RequestException (Some sc))"
    and "\<forall>r. client_error (storage e) \<noteq> Some (RequestException r)"
  shows "400 \<le> sc \<and> sc < 600
     \<and> (status_code_of (post_reply e) = Some sc
        \<or> (\<exists>k. status_code_of (poll_reply e k) = Some sc)
        \<or> (\<exists>url. image_status_code_of (image_reply e url) = Some sc))"
proof -
  obtain r1 w1 where s: "submit_job e p wd h w = (r1, w1)"
    by (cases "submit_job e p wd h w")
  show ?thesis
  proof (cases r1)
    case (Inl x)
    with assms(1) s have "fst (submit_job e p wd h w) = Inl (RequestException (Some sc))"
      by (simp add: run_generation_def)
    from submit_job_response_origin [OF this] show ?thesis by simp
  next
    case j: (Inr job_id)
    obtain r2 w2 where l: "poll_loop e (now w1) 0 w1 = (r2, w2)"
      by (cases "poll_loop e (now w1) 0 w1")
    show ?thesis
    proof (cases r2)
      case (Inl x)
      with assms(1) s j l have "fst (poll_loop e (now w1) 0 w1) = Inl (RequestException (Some sc))"
        by (simp add: run_generation_def)
      from poll_loop_response_origin [OF this] show ?thesis by simp
    next
      case (Inr result)
      with assms(1) s j l have "fst (deliver e rid result w2) = Inl (RequestException (Some sc))"
        by (simp add: run_generation_def)
      from deliver_response_origin [OF this assms(2)] show ?thesis by simp
    qed
  qed
qed

lemma error_code_unknown_error: "obj_get (unknown_error rid) ''error_code'' = JStr ''UNKNOWN_ERROR''"
  by (simp add: unknown_error_def error_dict_def obj_get_def dict_get_def dict_get_default_def)

lemma service_error_iff:
  "obj_get (handle_api_error x rid) ''error_code'' = JStr ''SERVICE_ERROR''
     \<longleftrightarrow> (\<exists>sc. x = RequestException (Some sc) \<and> 500 \<le> sc)"
proof (cases x)
  case (RequestException r)
  show ?thesis
  proof (cases r)
    case None
    with RequestException show ?thesis by (simp add: error_code_unknown_error)
  next
    case (Some sc)
    with RequestException show ?thesis
      by (simp add: error_code_unknown_error)
         (auto simp: error_dict_def obj_get_def dict_get_def dict_get_default_def)
  qed
qed (simp_all add: error_code_unknown_error)

lemma deliver_returned:
  assumes "deliver e rid result w = (Inr body, w')"
  shows "obj_get body ''error_code'' = JNull"
  using assms
  by (auto simp: deliver_def obj_get_def dict_get_def dict_get_default_def
        split: sum.splits prod.splits)

lemma run_generation_returned:
  assumes "run_generation e rid p wd h w = (Inr body, w')"
  shows "obj_get body ''error_code'' = JNull"
  using assms
  by (auto simp: run_generation_def Let_def dest: deliver_returned
        split: sum.splits prod.splits)

lemma generate_image_service_error:
  assumes "check_api_configuration (cfg e) = []"
    and "obj_get (fst (fst (generate_image e rid p wd h w))) ''error_code''
           = JStr ''SERVICE_ERROR''"
  shows "\<exists>sc. 500 \<le> sc
           \<and> fst (run_generation e rid p wd h w) = Inl (RequestException (Some sc))"
proof -
  obtain r w' where run: "run_generation e rid p wd h w = (r, w')"
    by (cases "run_generation e rid p wd h w")
  show ?thesis
  proof (cases r)
    case (Inl x)
    from generate_image_raised [OF assms(1) run [unfolded Inl]] assms(2)
    have "obj_get (handle_api_error x rid) ''error_code'' = JStr ''SERVICE_ERROR''"
      by simp
    then obtain sc where "x = RequestException (Some sc)" "500 \<le> sc"
      by (auto simp: service_error_iff)
    with run Inl show ?thesis by simp
  next
    case (Inr body)
    from generate_image_returned [OF assms(1) run [unfolded Inr]] assms(2)
      run_generation_returned [OF run [unfolded Inr]]
    show ?thesis by simp
  qed
qed

lemma save_image_broken_stream:
  assumes "\<not> startswith url ''data:image''" and "startswith url ''http''"
    and "image_reply e url = ImageResponse sc chunks True" and "raise_for_status sc = None"
  shows "save_image e rid (JStr url) w =
         (Inl (RequestException None),
          w\<lparr>trace := trace w @ [Fetch url],
            files := (files w)(save_path_of rid \<mapsto> concat chunks)\<rparr>)"
  using assms by (simp add: save_image_http)

text \<open>
  C6, as the code has it. A request that fails without a response (at the submission, at
  a poll or at the image download, where the stream may also break after the answer has
  passed \<^verbatim>\<open>raise_for_status\<close>) raises a RequestException whose \<^verbatim>\<open>response\<close> is
  None; \<^verbatim>\<open>handle_api_error\<close> looks at the status code only when there is a response,
  so the caller gets UNKNOWN_ERROR, with HTTP status 400, whenever such an exception
  leaves the \<^verbatim>\<open>try\<close>. SERVICE_ERROR is the code of the answer exactly for an
  exception that carries a response with status 500 or above; when the route answers
  SERVICE_ERROR such an exception was raised, and unless the constructor of the Azure
  client raised it, the generation API or the image host has answered with that status,
  which lies between 500 and 599.
\<close>

theorem transport_failure_unknown_error:
  assumes "check_api_configuration (cfg e) = []"
  shows
   "(post_reply e = NoResponse \<longrightarrow>
       fst (generate_image e rid p wd h w) = (unknown_error rid, 400))
    \<and> (accepted (post_reply e) \<and> reaches e (now w) n \<and> poll_reply e n = NoResponse \<longrightarrow>
       fst (generate_image e rid p wd h w) = (unknown_error rid, 400))
    \<and> (accepted (post_reply e) \<and> completes_at e (now w) n result
         \<and> parse_output result = Inr (JStr url)
         \<and> \<not> startswith url ''data:image'' \<and> startswith url ''http''
         \<and> image_reply e url = NoImageResponse \<longrightarrow>
       fst (generate_image e rid p wd h w) = (unknown_error rid, 400))
    \<and> (accepted (post_reply e) \<and> completes_at e (now w) n result
         \<and> parse_output result = Inr (JStr url)
         \<and> \<not> startswith url ''data:image'' \<and> startswith url ''http''
         \<and> image_reply e url = ImageResponse sc chunks True
         \<and> raise_for_status sc = None \<longrightarrow>
       fst (generate_image e rid p wd h w) = (unknown_error rid, 400))
    \<and> (fst (run_generation e rid p wd h w) = Inl (RequestException None) \<longrightarrow>
       fst (generate_image e rid p wd h w) = (unknown_error rid, 400))
    \<and> obj_get (unknown_error rid) ''error_code'' = JStr ''UNKNOWN_ERROR''
    \<and> (obj_get (handle_api_error x rid) ''error_code'' = JStr ''SERVICE_ERROR''
         \<longleftrightarrow> (\<exists>status_code. x = RequestException (Some status_code) \<and> 500 \<le> status_code))
    \<and> (obj_get (fst (fst (generate_image e rid p wd h w))) ''error_code''
           = JStr ''SERVICE_ERROR'' \<longrightarrow>
         (\<exists>status_code. 500 \<le> status_code
            \<and> fst (run_generation e rid p wd h w)
                = Inl (RequestException (Some status_code))))
    \<and> (obj_get (fst (fst (generate_image e rid p wd h w))) ''error_code''
           = JStr ''SERVICE_ERROR''
         \<and> (\<forall>r. client_error (storage e) \<noteq> Some (RequestException r)) \<longrightarrow>
         (\<exists>status_code. 500 \<le> status_code \<and> status_code < 600
            \<and> (status_code_of (post_reply e) = Some status_code
               \<or> (\<exists>k. status_code_of (poll_reply e k) = Some status_code)
               \<or> (\<exists>u. image_status_code_of (image_reply e u) = Some status_code))))"
proof -
  have none: "fst (generate_image e rid p wd h w) = (unknown_error rid, 400)"
    if "fst (run_generation e rid p wd h w) = Inl (RequestException None)"
  proof -
    from that have "run_generation e rid p wd h w
        = (Inl (RequestException None), snd (run_generation e rid p wd h w))"
      by (cases "run_generation e rid p wd h w") simp
    from generate_image_raised [OF assms this] show ?thesis by simp
  qed
  have submit: "fst (generate_image e rid p wd h w) = (unknown_error rid, 400)"
    if "post_reply e = NoResponse"
    using generate_image_raised [OF assms
        run_generation_submit_error [OF submit_job_no_response [OF that]]]
    by simp
  have poll: "fst (generate_image e rid p wd h w) = (unknown_error rid, 400)"
    if "accepted (post_reply e)" "reaches e (now w) n" "poll_reply e n = NoResponse"
    using generate_image_raised [OF assms
        run_generation_poll_error [OF that(1,2) poll_loop_no_response [OF that(3)]]]
    by simp
  have fetch: "fst (generate_image e rid p wd h w) = (unknown_error rid, 400)"
    if "accepted (post_reply e)" "completes_at e (now w) n result"
      "parse_output result = Inr (JStr url)"
      "\<not> startswith url ''data:image''" "startswith url ''http''"
      "image_reply e url = NoImageResponse"
  proof -
    have "fst (run_generation e rid p wd h w) = Inl (RequestException None)"
      by (simp add: run_generation_completed [OF that(1,2)]
            deliver_save_error [OF that(3) save_image_no_response [OF that(4,5,6)]])
    then show ?thesis by (rule none)
  qed
  have stream: "fst (generate_image e rid p wd h w) = (unknown_error rid, 400)"
    if "accepted (post_reply e)" "completes_at e (now w) n result"
      "parse_output result = Inr (JStr url)"
      "\<not> startswith url ''data:image''" "startswith url ''http''"
      "image_reply e url = ImageResponse sc chunks True" "raise_for_status sc = None"
  proof -
    have "fst (run_generation e rid p wd h w) = Inl (RequestException None)"
      by (simp add: run_generation_completed [OF that(1,2)]
            deliver_save_error [OF that(3) save_image_broken_stream [OF that(4,5,6,7)]])
    then show ?thesis by (rule none)
  qed
  note code = error_code_unknown_error [of rid]
  note handler = service_error_iff [of x rid]
  have route: "\<exists>status_code. 500 \<le> status_code
            \<and> fst (run_generation e rid p wd h w)
                = Inl (RequestException (Some status_code))"
    if "obj_get (fst (fst (generate_image e rid p wd h w))) ''error_code''
           = JStr ''SERVICE_ERROR''"
    by (rule generate_image_service_error [OF assms that])
  have origin: "\<exists>status_code. 500 \<le> status_code \<and> status_code < 600
            \<and> (status_code_of (post_reply e) = Some status_code
               \<or> (\<exists>k. status_code_of (poll_reply e k) = Some status_code)
               \<or> (\<exists>u. image_status_code_of (image_reply e u) = Some status_code))"
    if s: "obj_get (fst (fst (generate_image e rid p wd h w))) ''error_code''
           = JStr ''SERVICE_ERROR''"
      and a: "\<forall>r. client_error (storage e) \<noteq> Some (RequestException r)"
  proof -
    from route [OF s] obtain status_code where c: "500 \<le> status_code"
      and r: "fst (run_generation e rid p wd h w) = Inl (RequestException (Some status_code))"
      by blast
    from run_generation_response_origin [OF r a] c show ?thesis by blast
  qed
  from submit poll fetch stream none code handler route origin show ?thesis by blast
qed

theorem transport_failure_unknown_error_witness:
  "fst (generate_image (sample_env NoResponse (\<lambda>_. in_progress) NoImageResponse)
          rid0 (JStr ''x'') (JInt 256) (JInt 256) world0)
     = (unknown_error rid0, 400)
   \<and> fst (generate_image (sample_env job_created (\<lambda>_. NoResponse) NoImageResponse)
          rid0 (JStr ''x'') (JInt 256) (JInt 256) world0)
     = (unknown_error rid0, 400)
   \<and> fst (generate_image (third_poll_env (JStr ''http://cdn.example/x.png'') NoImageResponse)
          rid0 (JStr ''x'') (JInt 256) (JInt 256) world0)
     = (unknown_error rid0, 400)
   \<and> fst (generate_image (third_poll_env (JStr ''http://cdn.example/x.png'')
                            (ImageResponse 200 [[1, 2], [3]] True))
          rid0 (JStr ''x'') (JInt 256) (JInt 256) world0)
     = (unknown_error rid0, 400)
   \<and> (\<exists>status_code. 500 \<le> status_code \<and> status_code < 600
        \<and> (status_code_of (post_reply
               (sample_env (Response 503 JNull) (\<lambda>_. in_progress) NoImageResponse))
             = Some status_code
           \<or> (\<exists>k. status_code_of (poll_reply
                 (sample_env (Response 503 JNull) (\<lambda>_. in_progress) NoImageResponse) k)
               = Some status_code)
           \<or> (\<exists>u. image_status_code_of (image_reply
                 (sample_env (Response 503 JNull) (\<lambda>_. in_progress) NoImageResponse) u)
               = Some status_code)))
   \<and> (\<exists>status_code. 500 \<le> status_code
        \<and> fst (run_generation
                 (sample_env (Response 503 JNull) (\<lambda>_. in_progress) NoImageResponse)
                 rid0 (JStr ''x'') (JInt 256) (JInt 256) world0)
            = Inl (RequestException (Some status_code)))"
proof -
  let ?e1 = "sample_env NoResponse (\<lambda>_. in_progress) NoImageResponse"
  let ?e2 = "sample_env job_created (\<lambda>_. NoResponse) NoImageResponse"
  let ?url = "''http://cdn.example/x.png''"
  let ?result = "[(''status'', JStr ''COMPLETED''), (''output'', JStr ?url)]"
  let ?e5 = "sample_env (Response 503 JNull) (\<lambda>_. in_progress) NoImageResponse"
  have p1: "post_reply ?e1 = NoResponse"
    by (simp add: sample_env_def)
  have p2: "accepted (post_reply ?e2) \<and> reaches ?e2 (now world0) 0
      \<and> poll_reply ?e2 0 = NoResponse"
    by (simp add: sample_env_def accepted_job_created reaches_def)
  have 1: "fst (generate_image ?e1 rid0 (JStr ''x'') (JInt 256) (JInt 256) world0)
     = (unknown_error rid0, 400)"
    using transport_failure_unknown_error [OF sample_env_configured,
        where rid = rid0 and w = world0] p1
    by blast
  have 2: "fst (generate_image ?e2 rid0 (JStr ''x'') (JInt 256) (JInt 256) world0)
     = (unknown_error rid0, 400)"
    using transport_failure_unknown_error [OF sample_env_configured,
        where rid = rid0 and w = world0 and n = 0] p2
    by blast
  have u: "parse_output ?result = Inr (JStr ?url)
      \<and> \<not> startswith ?url ''data:image'' \<and> startswith ?url ''http''
      \<and> raise_for_status 200 = None"
    by (simp add: parse_output_def dict_get_def dict_get_default_def startswith_def
          raise_for_status_def)
  have a3: "accepted (post_reply (third_poll_env (JStr ?url) NoImageResponse))"
    by (rule third_poll_env_accepted)
  have c3: "completes_at (third_poll_env (JStr ?url) NoImageResponse) (now world0) 2 ?result"
    by (rule third_poll_env_completes)
  have i3: "image_reply (third_poll_env (JStr ?url) NoImageResponse) ?url = NoImageResponse"
    by (rule third_poll_env_image)
  have 3: "fst (generate_image (third_poll_env (JStr ?url) NoImageResponse)
          rid0 (JStr ''x'') (JInt 256) (JInt 256) world0) = (unknown_error rid0, 400)"
    using transport_failure_unknown_error [OF third_poll_env_configured,
        where rid = rid0 and w = world0 and n = 2 and result = ?result and url = ?url
        and out1 = "JStr ?url" and i1 = NoImageResponse]
      u a3 c3 i3
    by blast
  have a4: "accepted (post_reply (third_poll_env (JStr ?url)
              (ImageResponse 200 [[1, 2], [3]] True)))"
    by (rule third_poll_env_accepted)
  have c4: "completes_at (third_poll_env (JStr ?url) (ImageResponse 200 [[1, 2], [3]] True))
              (now world0) 2 ?result"
    by (rule third_poll_env_completes)
  have i4: "image_reply (third_poll_env (JStr ?url) (ImageResponse 200 [[1, 2], [3]] True)) ?url
              = ImageResponse 200 [[1, 2], [3]] True"
    by (rule third_poll_env_image)
  have 4: "fst (generate_image (third_poll_env (JStr ?url) (ImageResponse 200 [[1, 2], [3]] True))
          rid0 (JStr ''x'') (JInt 256) (JInt 256) world0) = (unknown_error rid0, 400)"
    using transport_failure_unknown_error [OF third_poll_env_configured,
        where rid = rid0 and w = world0 and n = 2 and result = ?result and url = ?url
        and out1 = "JStr ?url" and i1 = "ImageResponse 200 [[1, 2], [3]] True"
        and sc = 200 and chunks = "[[1, 2], [3]]"]
      u a4 c4 i4
    by blast
  have s5: "obj_get (fst (fst (generate_image ?e5 rid0 (JStr ''x'') (JInt 256) (JInt 256)
              world0))) ''error_code'' = JStr ''SERVICE_ERROR''"
    by code_simp
  have z5: "\<forall>r. client_error (storage ?e5) \<noteq> Some (RequestException r)"
    by (simp add: sample_env_def azure_ok_def)
  have 5: "\<exists>status_code. 500 \<le> status_code \<and> status_code < 600
        \<and> (status_code_of (post_reply ?e5) = Some status_code
           \<or> (\<exists>k. status_code_of (poll_reply ?e5 k) = Some status_code)
           \<or> (\<exists>u. image_status_code_of (image_reply ?e5 u) = Some status_code))"
    using transport_failure_unknown_error [OF sample_env_configured,
        where rid = rid0 and w = world0 and p = "JStr ''x''" and wd = "JInt 256"
        and h = "JInt 256" and ?p1 = "Response 503 JNull" and q1 = "\<lambda>_. in_progress"
        and i1 = NoImageResponse]
      s5 z5
    by blast
  have 6: "\<exists>status_code. 500 \<le> status_code
        \<and> fst (run_generation ?e5 rid0 (JStr ''x'') (JInt 256) (JInt 256) world0)
            = Inl (RequestException (Some status_code))"
    using transport_failure_unknown_error [OF sample_env_configured,
        where rid = rid0 and w = world0 and p = "JStr ''x''" and wd = "JInt 256"
        and h = "JInt 256" and ?p1 = "Response 503 JNull" and q1 = "\<lambda>_. in_progress"
        and i1 = NoImageResponse]
      s5
    by blast
  from 1 2 3 4 5 6 show ?thesis by blast
qed

text \<open>A refused connection at the submission is not answered with SERVICE_ERROR.\<close>

theorem transport_failure_counterexample:
  "obj_get (fst (fst (generate_image (sample_env NoResponse (\<lambda>_. in_progress) NoImageResponse)
      rid0 (JStr ''x'') (JInt 256) (JInt 256) world0))) ''error_code'' = JStr ''UNKNOWN_ERROR''
   \<and> obj_get (fst (fst (generate_image (sample_env NoResponse (\<lambda>_. in_progress) NoImageResponse)
      rid0 (JStr ''x'') (JInt 256) (JInt 256) world0))) ''error_code'' \<noteq> JStr ''SERVICE_ERROR''
   \<and> snd (fst (generate_image (sample_env NoResponse (\<lambda>_. in_progress) NoImageResponse)
      rid0 (JStr ''x'') (JInt 256) (JInt 256) world0)) = 400"
  by code_simp

section \<open>A submission without a job identifier\<close>

lemma submit_job_no_id:
  assumes "post_reply e = Response sc (JObj job_info)" and "raise_for_status sc = None"
    and "\<not> truthy (dict_get job_info ''id'')"
  shows "submit_job e p wd h w
           = (Inl (ValueError ''Job ID not found in /run response.''), posted p wd h w)"
  using assms by (simp add: submit_job_def posted_def Let_def)

lemma submit_job_not_dict:
  assumes "post_reply e = Response sc body" and "raise_for_status sc = None"
    and "\<forall>d. body \<noteq> JObj d"
  shows "submit_job e p wd h w = (Inl (AttributeError ''get''), posted p wd h w)"
  using assms by (cases body) (simp_all add: submit_job_def posted_def Let_def)

lemma submit_job_not_json:
  assumes "post_reply e = NonJson sc" and "raise_for_status sc = None"
  shows "submit_job e p wd h w = (Inl (RequestException None), posted p wd h w)"
  using assms by (simp add: submit_job_def posted_def Let_def)

lemma trace_posted:
  "trace (posted p wd h w) = trace w @ [Post (JObj [(''input'',
      JObj [(''prompt'', p), (''width'', wd), (''height'', h)])])]"
  by (simp add: posted_def)

text \<open>
  C7. When the answer to the submission passes \<^verbatim>\<open>raise_for_status\<close> and holds no job
  identifier (it is anything but a dict with a truthy \<^verbatim>\<open>id\<close>), the run ends there
  with an exception: the request has been posted, no poll is issued, nothing is written,
  and the caller gets the generic error answer, whose code is UNKNOWN_ERROR.
  There are three ways to hold no identifier. A dict without a truthy \<^verbatim>\<open>id\<close> raises
  ValueError ("Job ID not found in /run response."), the code's Malformed, answered with
  HTTP status 500. A JSON value that is not a dict raises AttributeError, answered the
  same way. A body that is not JSON makes \<^verbatim>\<open>response.json()\<close> raise the
  JSONDecodeError of \<^verbatim>\<open>requests\<close>, a RequestException without a response, which
  the first handler answers with HTTP status 400.
\<close>

theorem missing_job_id:
  assumes "check_api_configuration (cfg e) = []" and "raise_for_status sc = None"
  shows
   "(status_code_of (post_reply e) = Some sc \<and> \<not> accepted (post_reply e) \<longrightarrow>
       (\<exists>x. run_generation e rid p wd h w = (Inl x, posted p wd h w))
       \<and> fst (fst (generate_image e rid p wd h w)) = unknown_error rid
       \<and> snd (generate_image e rid p wd h w) = posted p wd h w)
    \<and> (post_reply e = Response sc (JObj job_info) \<and> \<not> truthy (dict_get job_info ''id'') \<longrightarrow>
       run_generation e rid p wd h w
         = (Inl (ValueError ''Job ID not found in /run response.''), posted p wd h w)
       \<and> generate_image e rid p wd h w = ((unknown_error rid, 500), posted p wd h w))
    \<and> (post_reply e = Response sc body \<and> (\<forall>d. body \<noteq> JObj d) \<longrightarrow>
       run_generation e rid p wd h w = (Inl (AttributeError ''get''), posted p wd h w)
       \<and> generate_image e rid p wd h w = ((unknown_error rid, 500), posted p wd h w))
    \<and> (post_reply e = NonJson sc \<longrightarrow>
       run_generation e rid p wd h w = (Inl (RequestException None), posted p wd h w)
       \<and> generate_image e rid p wd h w = ((unknown_error rid, 400), posted p wd h w))
    \<and> files (posted p wd h w) = files w
    \<and> trace (posted p wd h w)
        = trace w @ [Post (JObj [(''input'',
            JObj [(''prompt'', p), (''width'', wd), (''height'', h)])])]
    \<and> obj_get (unknown_error rid) ''error_code'' = JStr ''UNKNOWN_ERROR''"
proof -
  have dict: "run_generation e rid p wd h w
         = (Inl (ValueError ''Job ID not found in /run response.''), posted p wd h w)
       \<and> generate_image e rid p wd h w = ((unknown_error rid, 500), posted p wd h w)"
    if "post_reply e = Response sc (JObj job_info)" "\<not> truthy (dict_get job_info ''id'')"
    for job_info
  proof -
    have run: "run_generation e rid p wd h w
         = (Inl (ValueError ''Job ID not found in /run response.''), posted p wd h w)"
      by (rule run_generation_submit_error [OF submit_job_no_id [OF that(1) assms(2) that(2)]])
    from generate_image_raised [OF assms(1) run] run show ?thesis by simp
  qed
  have other: "run_generation e rid p wd h w = (Inl (AttributeError ''get''), posted p wd h w)
       \<and> generate_image e rid p wd h w = ((unknown_error rid, 500), posted p wd h w)"
    if "post_reply e = Response sc body" "\<forall>d. body \<noteq> JObj d"
    for body
  proof -
    have run: "run_generation e rid p wd h w
         = (Inl (AttributeError ''get''), posted p wd h w)"
      by (rule run_generation_submit_error [OF submit_job_not_dict [OF that(1) assms(2) that(2)]])
    from generate_image_raised [OF assms(1) run] run show ?thesis by simp
  qed
  have notjson: "run_generation e rid p wd h w = (Inl (RequestException None), posted p wd h w)
       \<and> generate_image e rid p wd h w = ((unknown_error rid, 400), posted p wd h w)"
    if "post_reply e = NonJson sc"
  proof -
    have run: "run_generation e rid p wd h w
         = (Inl (RequestException None), posted p wd h w)"
      by (rule run_generation_submit_error [OF submit_job_not_json [OF that assms(2)]])
    from generate_image_raised [OF assms(1) run] run show ?thesis by simp
  qed
  have every: "(\<exists>x. run_generation e rid p wd h w = (Inl x, posted p wd h w))
       \<and> fst (fst (generate_image e rid p wd h w)) = unknown_error rid
       \<and> snd (generate_image e rid p wd h w) = posted p wd h w"
    if s: "status_code_of (post_reply e) = Some sc" and a: "\<not> accepted (post_reply e)"
  proof (cases "post_reply e")
    case NoResponse
    with s show ?thesis by (simp add: status_code_of_def)
  next
    case (Response sc' body)
    with s have r: "post_reply e = Response sc body"
      by (simp add: status_code_of_def)
    show ?thesis
    proof (cases "\<exists>d. body = JObj d")
      case True
      then obtain d where d: "body = JObj d" by blast
      with a r assms(2) have "\<not> truthy (dict_get d ''id'')" by simp
      with dict [of d] r d show ?thesis by simp
    next
      case False
      with other [of body] r show ?thesis by simp
    qed
  next
    case (NonJson sc')
    with s have "post_reply e = NonJson sc"
      by (simp add: status_code_of_def)
    with notjson show ?thesis by simp
  qed
  from every dict other notjson files_posted [of p wd h w] trace_posted [of p wd h w]
    error_code_unknown_error [of rid]
  show ?thesis by blast
qed

theorem missing_job_id_witness:
  "generate_image (sample_env (Response 200 (JObj [])) (\<lambda>_. in_progress) NoImageResponse)
      rid0 (JStr ''x'') (JInt 256) (JInt 256) world0
     = ((unknown_error rid0, 500), posted (JStr ''x'') (JInt 256) (JInt 256) world0)
   \<and> fst (run_generation
            (sample_env (Response 200 (JObj [])) (\<lambda>_. in_progress) NoImageResponse)
            rid0 (JStr ''x'') (JInt 256) (JInt 256) world0)
     = Inl (ValueError ''Job ID not found in /run response.'')
   \<and> generate_image (sample_env (Response 200 (JList [])) (\<lambda>_. in_progress) NoImageResponse)
      rid0 (JStr ''x'') (JInt 256) (JInt 256) world0
     = ((unknown_error rid0, 500), posted (JStr ''x'') (JInt 256) (JInt 256) world0)
   \<and> generate_image (sample_env (NonJson 200) (\<lambda>_. in_progress) NoImageResponse)
      rid0 (JStr ''x'') (JInt 256) (JInt 256) world0
     = ((unknown_error rid0, 400), posted (JStr ''x'') (JInt 256) (JInt 256) world0)
   \<and> fst (fst (generate_image
        (sample_env (Response 201 (JObj [(''id'', JStr [])])) (\<lambda>_. in_progress) NoImageResponse)
        rid0 (JStr ''x'') (JInt 256) (JInt 256) world0))
     = unknown_error rid0"
proof -
  let ?e4 = "sample_env (Response 201 (JObj [(''id'', JStr [])])) (\<lambda>_. in_progress)
               NoImageResponse"
  let ?e1 = "sample_env (Response 200 (JObj [])) (\<lambda>_. in_progress) NoImageResponse"
  let ?e2 = "sample_env (Response 200 (JList [])) (\<lambda>_. in_progress) NoImageResponse"
  let ?e3 = "sample_env (NonJson 200) (\<lambda>_. in_progress) NoImageResponse"
  have b: "raise_for_status 200 = None"
    by (simp add: raise_for_status_def)
  have a1: "post_reply ?e1 = Response 200 (JObj []) \<and> \<not> truthy (dict_get [] ''id'')"
    by (simp add: sample_env_def dict_get_def dict_get_default_def)
  have 1: "run_generation ?e1 rid0 (JStr ''x'') (JInt 256) (JInt 256) world0
         = (Inl (ValueError ''Job ID not found in /run response.''),
            posted (JStr ''x'') (JInt 256) (JInt 256) world0)
       \<and> generate_image ?e1 rid0 (JStr ''x'') (JInt 256) (JInt 256) world0
         = ((unknown_error rid0, 500), posted (JStr ''x'') (JInt 256) (JInt 256) world0)"
    using missing_job_id [OF sample_env_configured b, where rid = rid0 and w = world0
        and job_info = "[]" and ?p1 = "Response 200 (JObj [])"] a1
    by blast
  have a2: "post_reply ?e2 = Response 200 (JList []) \<and> (\<forall>d. JList [] \<noteq> JObj d)"
    by (simp add: sample_env_def)
  have 2: "generate_image ?e2 rid0 (JStr ''x'') (JInt 256) (JInt 256) world0
         = ((unknown_error rid0, 500), posted (JStr ''x'') (JInt 256) (JInt 256) world0)"
    using missing_job_id [OF sample_env_configured b, where rid = rid0 and w = world0
        and body = "JList []" and ?p1 = "Response 200 (JList [])"] a2
    by blast
  have a3: "post_reply ?e3 = NonJson 200"
    by (simp add: sample_env_def)
  have 3: "generate_image ?e3 rid0 (JStr ''x'') (JInt 256) (JInt 256) world0
         = ((unknown_error rid0, 400), posted (JStr ''x'') (JInt 256) (JInt 256) world0)"
    using missing_job_id [OF sample_env_configured b, where rid = rid0 and w = world0
        and ?p1 = "NonJson 200"] a3
    by blast
  have b4: "raise_for_status 201 = None"
    by (simp add: raise_for_status_def)
  have a4: "status_code_of (post_reply ?e4) = Some 201 \<and> \<not> accepted (post_reply ?e4)"
    by (simp add: sample_env_def status_code_of_def dict_get_def dict_get_default_def)
  have 4: "fst (fst (generate_image ?e4 rid0 (JStr ''x'') (JInt 256) (JInt 256) world0))
         = unknown_error rid0"
    using missing_job_id [OF sample_env_configured b4, where rid = rid0 and w = world0
        and ?p1 = "Response 201 (JObj [(''id'', JStr [])])"] a4
    by blast
  from 1 2 3 4 show ?thesis by simp
qed

section \<open>What is written to the destination\<close>

lemma files_submit_job: "files (snd (submit_job e p wd h w)) = files w"
  by (simp add: submit_job_def Let_def split: reply.split option.split json.split)

lemma files_upload_blob: "files (snd (upload_blob e local_path blob_name w)) = files w"
  by (simp add: upload_blob_def Let_def split: option.split)

lemma upload_blob_returns:
  assumes "client_error (storage e) = None"
  shows "\<exists>v. fst (upload_blob e local_path blob_name w) = Inr v"
  using assms by (simp add: upload_blob_def Let_def split: option.split)

lemma save_image_files:
  assumes "\<forall>url sc chunks. image_reply e url \<noteq> ImageResponse sc chunks True"
  shows "case save_image e rid image_url w of
           (Inl x, w') \<Rightarrow> files w' = files w
         | (Inr u, w') \<Rightarrow> (\<exists>image_data. files w' = (files w)(save_path_of rid \<mapsto> image_data))"
proof (cases image_url)
  case (JStr s)
  show ?thesis
  proof (cases "startswith s ''data:image''")
    case True
    then show ?thesis
      unfolding JStr by (auto simp: save_image_data split: sum.split)
  next
    case False
    show ?thesis
    proof (cases "startswith s ''http''")
      case True
      with False assms show ?thesis
        unfolding JStr
        by (auto simp: save_image_http split: image_reply.split option.split)
    next
      case no: False
      with False show ?thesis
        unfolding JStr by (simp add: save_image_other)
    qed
  qed
qed (simp_all add: save_image_def)

lemma deliver_files:
  assumes "client_error (storage e) = None"
    and "\<forall>url sc chunks. image_reply e url \<noteq> ImageResponse sc chunks True"
  shows "case deliver e rid result w of
           (Inl x, w') \<Rightarrow> files w' = files w
         | (Inr body, w') \<Rightarrow>
             (\<exists>image_data. files w' = (files w)(save_path_of rid \<mapsto> image_data))"
proof (cases "parse_output result")
  case (Inl x)
  then show ?thesis by (simp add: deliver_def)
next
  case (Inr image_url)
  obtain r w1 where s: "save_image e rid image_url w = (r, w1)"
    by (cases "save_image e rid image_url w")
  show ?thesis
  proof (cases r)
    case (Inl x)
    with save_image_files [OF assms(2), where rid = rid and image_url = image_url and w = w]
      s Inr
    show ?thesis
      by (simp add: deliver_def)
  next
    case u: (Inr u)
    with save_image_files [OF assms(2), where rid = rid and image_url = image_url and w = w] s
    obtain image_data where f: "files w1 = (files w)(save_path_of rid \<mapsto> image_data)"
      by auto
    obtain r2 w2 where b: "upload_blob e (save_path_of rid) (rid @ ''.png'') w1 = (r2, w2)"
      by (cases "upload_blob e (save_path_of rid) (rid @ ''.png'') w1")
    have "files w2 = files w1"
      using files_upload_blob [where e = e and local_path = "save_path_of rid"
          and blob_name = "rid @ ''.png''" and w = w1] b by simp
    moreover obtain v where "r2 = Inr v"
      using upload_blob_returns [OF assms(1), where local_path = "save_path_of rid"
          and blob_name = "rid @ ''.png''" and w = w1] b
      by auto
    ultimately show ?thesis
      using Inr s u b f by (auto simp: deliver_def)
  qed
qed

lemma run_generation_files:
  assumes "client_error (storage e) = None"
    and "\<forall>url sc chunks. image_reply e url \<noteq> ImageResponse sc chunks True"
  shows "case run_generation e rid p wd h w of
           (Inl x, w') \<Rightarrow> files w' = files w
         | (Inr body, w') \<Rightarrow>
             (\<exists>image_data. files w' = (files w)(save_path_of rid \<mapsto> image_data))"
proof -
  obtain r1 w1 where s: "submit_job e p wd h w = (r1, w1)"
    by (cases "submit_job e p wd h w")
  have f1: "files w1 = files w"
    using files_submit_job [where e = e and p = p and wd = wd and h = h and w = w] s by simp
  show ?thesis
  proof (cases r1)
    case (Inl x)
    with s f1 show ?thesis by (simp add: run_generation_def)
  next
    case (Inr job_id)
    obtain r2 w2 where l: "poll_loop e (now w1) 0 w1 = (r2, w2)"
      by (cases "poll_loop e (now w1) 0 w1")
    have f2: "files w2 = files w"
      using files_poll_loop [where e = e and ?t0.0 = "now w1" and n = 0 and w = w1] l f1
      by simp
    show ?thesis
    proof (cases r2)
      case (Inl x)
      with s Inr l f2 show ?thesis by (simp add: run_generation_def)
    next
      case res: (Inr result)
      obtain r3 w3 where d: "deliver e rid result w2 = (r3, w3)"
        by (cases "deliver e rid result w2")
      show ?thesis
        using deliver_files [OF assms, where rid = rid and result = result and w = w2]
          d s Inr l res f2
        by (cases r3) (simp_all add: run_generation_def)
    qed
  qed
qed

text \<open>
  C8, as the code has it. A success answer (HTTP status 200) goes with exactly one file
  written, the one at \<^verbatim>\<open>static/generated_images/<rid>.png\<close>. Every other answer goes
  with no file written, provided that no download stream breaks after the destination
  was opened and that the blob client can be built from the connection string.
\<close>

theorem artifact_written:
  assumes "client_error (storage e) = None"
    and "\<forall>url sc chunks. image_reply e url \<noteq> ImageResponse sc chunks True"
  shows "(snd (fst (generate_image e rid p wd h w)) = 200 \<longrightarrow>
            (\<exists>image_data. files (snd (generate_image e rid p wd h w))
                             = (files w)(save_path_of rid \<mapsto> image_data)))
         \<and> (snd (fst (generate_image e rid p wd h w)) \<noteq> 200 \<longrightarrow>
            files (snd (generate_image e rid p wd h w)) = files w)"
proof (cases "check_api_configuration (cfg e) = []")
  case False
  then show ?thesis by (simp add: generate_image_def)
next
  case True
  obtain r w' where run: "run_generation e rid p wd h w = (r, w')"
    by (cases "run_generation e rid p wd h w")
  show ?thesis
  proof (cases r)
    case (Inl x)
    have "(case x of RequestException _ \<Rightarrow> (400::int) | _ \<Rightarrow> 500) \<noteq> 200"
      by (cases x) simp_all
    with Inl run
      run_generation_files [OF assms, where rid = rid and p = p and wd = wd and h = h and w = w]
      generate_image_raised [OF True, where rid = rid and p = p and wd = wd and h = h
        and w = w and x = x and w' = w']
    show ?thesis by simp
  next
    case (Inr body)
    with run
      run_generation_files [OF assms, where rid = rid and p = p and wd = wd and h = h and w = w]
      generate_image_returned [OF True, where rid = rid and p = p and wd = wd and h = h
        and w = w and body = body and w' = w']
    show ?thesis by simp
  qed
qed

theorem artifact_written_witness:
  "(\<exists>image_data. files (snd (generate_image
        (third_poll_env (JStr ''data:image/png;base64,AAAA'') NoImageResponse)
        rid0 (JStr ''x'') (JInt 256) (JInt 256) world0))
      = (files world0)(save_path_of rid0 \<mapsto> image_data))
   \<and> files (snd (generate_image never_done_env rid0 (JStr ''x'') (JInt 256) (JInt 256) world0))
      = files world0"
proof -
  let ?e = "third_poll_env (JStr ''data:image/png;base64,AAAA'') NoImageResponse"
  have a: "client_error (storage ?e) = None"
    and b: "\<forall>url sc chunks. image_reply ?e url \<noteq> ImageResponse sc chunks True"
    by (simp_all add: third_poll_env_def sample_env_def azure_ok_def)
  have c: "snd (fst (generate_image ?e rid0 (JStr ''x'') (JInt 256) (JInt 256) world0)) = 200"
    using data_uri_example by simp
  have 1: "\<exists>image_data. files (snd (generate_image ?e rid0 (JStr ''x'') (JInt 256) (JInt 256)
        world0)) = (files world0)(save_path_of rid0 \<mapsto> image_data)"
    using artifact_written [OF a b, where rid = rid0 and p = "JStr ''x''" and wd = "JInt 256"
        and h = "JInt 256" and w = world0] c
    by blast
  have a': "client_error (storage never_done_env) = None"
    and b': "\<forall>url sc chunks. image_reply never_done_env url \<noteq> ImageResponse sc chunks True"
    by (simp_all add: never_done_env_def sample_env_def azure_ok_def)
  have c': "snd (fst (generate_image never_done_env rid0 (JStr ''x'') (JInt 256) (JInt 256)
      world0)) \<noteq> 200"
    by code_simp
  have 2: "files (snd (generate_image never_done_env rid0 (JStr ''x'') (JInt 256) (JInt 256)
      world0)) = files world0"
    using artifact_written [OF a' b', where rid = rid0 and p = "JStr ''x''" and wd = "JInt 256"
        and h = "JInt 256" and w = world0] c'
    by blast
  from 1 2 show ?thesis by blast
qed

text \<open>
  A download whose stream breaks after the chunk \<open>[1, 2]\<close> is answered with an error and
  leaves that chunk in the file; a connection string that the blob client refuses is
  answered with an error and leaves the whole image in the file.
\<close>

theorem artifact_left_counterexample:
  "fst (generate_image
          (third_poll_env (JStr ''http://cdn.example/x.png'') (ImageResponse 200 [[1, 2]] True))
          rid0 (JStr ''x'') (JInt 256) (JInt 256) world0)
     = (unknown_error rid0, 400)
   \<and> files (snd (generate_image
          (third_poll_env (JStr ''http://cdn.example/x.png'') (ImageResponse 200 [[1, 2]] True))
          rid0 (JStr ''x'') (JInt 256) (JInt 256) world0)) (save_path_of rid0)
     = Some [1, 2]
   \<and> fst (generate_image bad_connection_env rid0 (JStr ''x'') (JInt 256) (JInt 256) world0)
     = (unknown_error rid0, 500)
   \<and> files (snd (generate_image bad_connection_env rid0 (JStr ''x'') (JInt 256) (JInt 256)
          world0)) (save_path_of rid0)
     = Some [0, 0, 0]
   \<and> files world0 (save_path_of rid0) = None"
  by code_simp

section \<open>The blob upload\<close>

text \<open>
  C9, as the code has it. Once the blob client is built, \<^verbatim>\<open>upload_blob\<close> never
  raises: whatever \<^verbatim>\<open>create_container\<close> raises (a container that exists already, or
  anything else) changes neither the result nor the blob stored; when the container
  client, the blob client, the opening of the local file or the upload fails, the result
  is None and no blob is stored; otherwise the result is the blob's URL and the blob
  holds the file's bytes, replacing what was there. The client itself is built before
  the \<^verbatim>\<open>try\<close>.
\<close>

theorem upload_blob_never_raises_after_client:
  assumes "client_error (storage e) = None"
  shows
   "(fst (upload_blob e local_path blob_name w) = Inr JNull
      \<or> fst (upload_blob e local_path blob_name w)
           = Inr (JStr (blob_url_of (CONTAINER_NAME (cfg e)) blob_name)))
    \<and> (\<forall>x. fst (upload_blob (e\<lparr>storage := (storage e)\<lparr>create_container_error := x\<rparr>\<rparr>)
                   local_path blob_name w)
             = fst (upload_blob e local_path blob_name w)
           \<and> blobs (snd (upload_blob (e\<lparr>storage := (storage e)\<lparr>create_container_error := x\<rparr>\<rparr>)
                   local_path blob_name w))
             = blobs (snd (upload_blob e local_path blob_name w)))
    \<and> (container_client_error (storage e) = None \<and> blob_client_error (storage e) = None
         \<and> upload_error (storage e) = None \<and> files w local_path = Some data \<longrightarrow>
        fst (upload_blob e local_path blob_name w)
          = Inr (JStr (blob_url_of (CONTAINER_NAME (cfg e)) blob_name))
        \<and> blobs (snd (upload_blob e local_path blob_name w))
          = (blobs w)((CONTAINER_NAME (cfg e), blob_name) \<mapsto> data))
    \<and> (container_client_error (storage e) \<noteq> None \<or> blob_client_error (storage e) \<noteq> None
         \<or> upload_error (storage e) \<noteq> None \<or> files w local_path = None \<longrightarrow>
        fst (upload_blob e local_path blob_name w) = Inr JNull
        \<and> blobs (snd (upload_blob e local_path blob_name w)) = blobs w)"
  using assms
  by (auto simp: upload_blob_def Let_def split: option.split)

theorem upload_blob_never_raises_after_client_witness:
  "upload_blob
     (never_done_env\<lparr>storage := azure_ok\<lparr>create_container_error :=
         Some (AzureError ''ContainerAlreadyExists'')\<rparr>\<rparr>)
     (save_path_of rid0) (rid0 @ ''.png'')
     (world0\<lparr>files := [save_path_of rid0 \<mapsto> [1, 2, 3]],
              blobs := [(''images'', rid0 @ ''.png'') \<mapsto> [9]]\<rparr>)
   = (Inr (JStr (blob_url_of ''images'' (rid0 @ ''.png''))),
      world0\<lparr>files := [save_path_of rid0 \<mapsto> [1, 2, 3]],
             blobs := [(''images'', rid0 @ ''.png'') \<mapsto> [1, 2, 3]]\<rparr>)
   \<and> fst (upload_blob never_done_env (save_path_of rid0) (rid0 @ ''.png'') world0) = Inr JNull"
proof -
  let ?e = "never_done_env\<lparr>storage := azure_ok\<lparr>create_container_error :=
         Some (AzureError ''ContainerAlreadyExists'')\<rparr>\<rparr>"
  let ?w = "world0\<lparr>files := [save_path_of rid0 \<mapsto> [1, 2, 3]],
              blobs := [(''images'', rid0 @ ''.png'') \<mapsto> [9]]\<rparr>"
  have a: "client_error (storage ?e) = None"
    by (simp add: azure_ok_def)
  have b: "container_client_error (storage ?e) = None \<and> blob_client_error (storage ?e) = None
         \<and> upload_error (storage ?e) = None
         \<and> files ?w (save_path_of rid0) = Some [1, 2, 3]"
    by (simp add: azure_ok_def)
  have c: "CONTAINER_NAME (cfg ?e) = ''images''"
    by (simp add: never_done_env_def sample_env_def cfg_ok_def)
  have "fst (upload_blob ?e (save_path_of rid0) (rid0 @ ''.png'') ?w)
          = Inr (JStr (blob_url_of ''images'' (rid0 @ ''.png'')))
        \<and> blobs (snd (upload_blob ?e (save_path_of rid0) (rid0 @ ''.png'') ?w))
          = (blobs ?w)((''images'', rid0 @ ''.png'') \<mapsto> [1, 2, 3])"
    using upload_blob_never_raises_after_client [OF a, where local_path = "save_path_of rid0"
        and blob_name = "rid0 @ ''.png''" and w = ?w and data = "[1, 2, 3]"] b
    unfolding c by blast
  moreover have "snd (upload_blob ?e (save_path_of rid0) (rid0 @ ''.png'') ?w)
      = ?w\<lparr>blobs := blobs (snd (upload_blob ?e (save_path_of rid0) (rid0 @ ''.png'') ?w))\<rparr>"
    by (simp add: upload_blob_def Let_def azure_ok_def split: option.split)
  ultimately have 1: "upload_blob ?e (save_path_of rid0) (rid0 @ ''.png'') ?w
   = (Inr (JStr (blob_url_of ''images'' (rid0 @ ''.png''))),
      world0\<lparr>files := [save_path_of rid0 \<mapsto> [1, 2, 3]],
             blobs := [(''images'', rid0 @ ''.png'') \<mapsto> [1, 2, 3]]\<rparr>)"
    by (simp add: prod_eq_iff)
  have a': "client_error (storage never_done_env) = None"
    by (simp add: never_done_env_def sample_env_def azure_ok_def)
  have b': "files world0 (save_path_of rid0) = None"
    by (simp add: world0_def)
  have 2: "fst (upload_blob never_done_env (save_path_of rid0) (rid0 @ ''.png'') world0)
      = Inr JNull"
    using upload_blob_never_raises_after_client [OF a', where local_path = "save_path_of rid0"
        and blob_name = "rid0 @ ''.png''" and w = world0] b'
    by blast
  from 1 2 show ?thesis by blast
qed

text \<open>With a connection string that the client refuses, the exception reaches the caller.\<close>

theorem upload_blob_raises_counterexample:
  "fst (upload_blob bad_connection_env (save_path_of rid0) (rid0 @ ''.png'') world0)
     = Inl (ValueError ''Connection string is either blank or malformed.'')"
  by code_simp

end
